theory Spec2Isabelle
  imports Main "HOL-Library.Word"
begin

unbundle bit_operations_syntax

section \<open>Basic types\<close>

text \<open>
  \<^verbatim>\<open>graph_basic_types.hpp\<close>: vertex and edge identifiers are \<^verbatim>\<open>uint32_t\<close>.
  \<^verbatim>\<open>size_t\<close> values (sizes of vectors, \<^verbatim>\<open>nvertices\<close>, \<^verbatim>\<open>nedges\<close>) are natural numbers;
  where the source relies on the 64-bit wrap-around of \<^verbatim>\<open>size_t\<close> it is written out.
\<close>

type_synonym vertex_id_type = "32 word"
type_synonym edge_id_type = "32 word"
type_synonym procid_t = "16 word"

text \<open>
  Modelled from the spec: \<^verbatim>\<open>vertex_color_type\<close> is declared in \<^verbatim>\<open>graph.hpp\<close>, which is
  not part of the sources at hand; the data model gives \<^verbatim>\<open>color: uint32\<close>.
\<close>

type_synonym vertex_color_type = "32 word"

text \<open>
  A failed \<^verbatim>\<open>assert\<close>, \<^verbatim>\<open>ASSERT_MSG\<close> or \<^verbatim>\<open>ASSERT_LT\<close> aborts the process. Indexing a
  \<^verbatim>\<open>std::vector\<close> outside its size has no defined behaviour in C++; the model gives it
  an error value of its own. A loop \<^verbatim>\<open>for (vertex_id_type v = 0; v < n; ++v)\<close> runs over
  \<open>0, \<dots>, n - 1\<close> when \<open>n \<le> 2 ^ 32\<close> and never ends otherwise, the counter
  wrapping around; the model writes it as a recursion over the list of indices behind a
  guard that returns \<open>Diverges\<close>.
\<close>

datatype error = AssertionFailure | UndefinedBehaviour | Diverges

section \<open>The local graph store (\<^verbatim>\<open>graph_local_store.hpp\<close>)\<close>

text \<open>
  \<^verbatim>\<open>struct vdata_store { VertexData data; bool modified:1; bool snapshot_made:1;
  uint64_t version:62; }\<close> and the same for edges: the version is a 62-bit field.
\<close>

record 'v vdata_store =
  data :: 'v
  modified :: bool
  snapshot_made :: bool
  version :: "62 word"

record 'e edata_store =
  data :: 'e
  modified :: bool
  snapshot_made :: bool
  version :: "62 word"

text \<open>The internal edge class: \<^verbatim>\<open>_source\<close> and \<^verbatim>\<open>_target\<close>, both \<open>-1\<close> by default.\<close>

record edge =
  edge_source :: vertex_id_type
  edge_target :: vertex_id_type

definition edge_default :: edge where
  "edge_default = \<lparr>edge_source = - 1, edge_target = - 1\<rparr>"

record ('v, 'e) graph_local_store =
  vertices :: "'v vdata_store list"
  edgedata :: "'e edata_store list"
  vertex_store_file :: string
  edge_store_file :: string
  edges :: "edge list"
  in_edges :: "edge_id_type list list"
  out_edges :: "edge_id_type list list"
  vcolors :: "vertex_color_type list"
  nvertices :: nat
  nedges :: nat
  finalized :: bool
  changeid :: nat

text \<open>\<^verbatim>\<open>std::vector::resize\<close>: keeps a prefix, pads with default-constructed elements.\<close>

definition resize :: "nat \<Rightarrow> 'a \<Rightarrow> 'a list \<Rightarrow> 'a list" where
  "resize n d xs = take n xs @ replicate (n - length xs) d"

text \<open>
  \<^verbatim>\<open>allocate_graph_data\<close> obtains both record arrays from \<^verbatim>\<open>malloc\<close> and does not
  initialise them. What a fresh block holds is not determined by the program, so it is a
  parameter: \<open>vmem i\<close> is what the block holds at record \<open>i\<close>.
\<close>

definition allocate_graph_data ::
  "(nat \<Rightarrow> 'v vdata_store) \<Rightarrow> (nat \<Rightarrow> 'e edata_store) \<Rightarrow>
   ('v, 'e) graph_local_store \<Rightarrow> ('v, 'e) graph_local_store" where
  "allocate_graph_data vmem emem s =
     s\<lparr>vertices := map vmem [0..<nvertices s], edgedata := map emem [0..<nedges s]\<rparr>"

text \<open>
  The default constructor: no records, \<^verbatim>\<open>finalized(true)\<close>, \<^verbatim>\<open>changeid(0)\<close>. It leaves
  \<^verbatim>\<open>nvertices\<close> and \<^verbatim>\<open>nedges\<close> uninitialised; \<^verbatim>\<open>create_store\<close> and \<^verbatim>\<open>load\<close> set them
  before anything reads them, and the model starts them at 0. The per-vertex locks are
  left out: one call runs at a time.
\<close>

definition new_store :: "('v, 'e) graph_local_store" where
  "new_store =
     \<lparr>vertices = [], edgedata = [], vertex_store_file = [], edge_store_file = [],
      edges = [], in_edges = [], out_edges = [], vcolors = [],
      nvertices = 0, nedges = 0, finalized = True, changeid = 0\<rparr>"

definition create_store ::
  "nat \<Rightarrow> nat \<Rightarrow> string \<Rightarrow> string \<Rightarrow> (nat \<Rightarrow> 'v vdata_store) \<Rightarrow> (nat \<Rightarrow> 'e edata_store) \<Rightarrow>
   ('v, 'e) graph_local_store \<Rightarrow> ('v, 'e) graph_local_store" where
  "create_store create_num_verts create_num_edges vertexstorefile edgestorefile vmem emem s =
     allocate_graph_data vmem emem
       (s\<lparr>nvertices := create_num_verts,
          nedges := create_num_edges,
          edges := resize create_num_edges edge_default (edges s),
          in_edges := resize create_num_verts [] (in_edges s),
          out_edges := resize create_num_verts [] (out_edges s),
          vcolors := resize create_num_verts 0 (vcolors s),
          vertex_store_file := vertexstorefile,
          edge_store_file := edgestorefile,
          finalized := True,
          changeid := 0\<rparr>)"

definition clear :: "('v, 'e) graph_local_store \<Rightarrow> ('v, 'e) graph_local_store" where
  "clear s = s\<lparr>edges := [], in_edges := [], out_edges := [], vcolors := [],
              finalized := True, changeid := changeid s + 1\<rparr>"

text \<open>
  \<^verbatim>\<open>add_edge\<close>: the three guarded blocks each end in a failing assertion; then the edge
  is stored and its id appended to both adjacency vectors.
\<close>

definition add_edge ::
  "edge_id_type \<Rightarrow> vertex_id_type \<Rightarrow> vertex_id_type \<Rightarrow>
   ('v, 'e) graph_local_store \<Rightarrow> error + ('v, 'e) graph_local_store" where
  "add_edge edge_id source target s =
     (if nvertices s \<le> unat source \<or> nvertices s \<le> unat target then Inl AssertionFailure
      else if nedges s \<le> unat edge_id then Inl AssertionFailure
      else if source = target then Inl AssertionFailure
      else if length (edges s) \<le> unat edge_id \<or> length (in_edges s) \<le> unat target
              \<or> length (out_edges s) \<le> unat source then Inl UndefinedBehaviour
      else Inr (s\<lparr>edges := (edges s)[unat edge_id := \<lparr>edge_source = source, edge_target = target\<rparr>],
                  in_edges := (in_edges s)[unat target := in_edges s ! unat target @ [edge_id]],
                  out_edges := (out_edges s)[unat source := out_edges s ! unat source @ [edge_id]],
                  finalized := False\<rparr>))"

text \<open>The sizes that \<^verbatim>\<open>create_store\<close> establishes and \<^verbatim>\<open>add_edge\<close> keeps.\<close>

definition store_sized :: "('v, 'e) graph_local_store \<Rightarrow> bool" where
  "store_sized s \<longleftrightarrow>
     length (edges s) = nedges s \<and> length (in_edges s) = nvertices s \<and>
     length (out_edges s) = nvertices s \<and> length (vcolors s) = nvertices s"

text \<open>
  A store as \<^verbatim>\<open>create_store\<close> leaves it when the allocator hands out zeroed memory;
  the payloads are of the one-element type, for examples about structure only.
\<close>

definition vzero :: "nat \<Rightarrow> unit vdata_store" where
  "vzero i = \<lparr>vdata_store.data = (), modified = False, snapshot_made = False, version = 0\<rparr>"

definition ezero :: "nat \<Rightarrow> unit edata_store" where
  "ezero i = \<lparr>edata_store.data = (), modified = False, snapshot_made = False, version = 0\<rparr>"

definition store_of :: "nat \<Rightarrow> nat \<Rightarrow> (unit, unit) graph_local_store" where
  "store_of nv ne = create_store nv ne [] [] vzero ezero new_store"

subsection \<open>Searching for an edge\<close>

text \<open>
  The linear search of \<^verbatim>\<open>find\<close> (written out twice in the source, once per adjacency
  vector): every id met is asserted to be below \<^verbatim>\<open>nedges\<close> before its edge is read.
\<close>

fun linear_search ::
  "('v, 'e) graph_local_store \<Rightarrow> edge_id_type list \<Rightarrow> vertex_id_type \<Rightarrow> vertex_id_type \<Rightarrow>
   error + (bool \<times> edge_id_type)" where
  "linear_search s [] source target = Inr (False, - 1)"
| "linear_search s (eid # rest) source target =
     (if nedges s \<le> unat eid then Inl AssertionFailure
      else if length (edges s) \<le> unat eid then Inl UndefinedBehaviour
      else if edge_source (edges s ! unat eid) = source \<and> edge_target (edges s ! unat eid) = target
        then Inr (True, eid)
      else linear_search s rest source target)"

text \<open>
  The loop of \<^verbatim>\<open>binary_search\<close> on \<^verbatim>\<open>first\<close> and \<^verbatim>\<open>last\<close> (here \<open>first'\<close>, \<open>last'\<close>). Both are \<^verbatim>\<open>size_t\<close>;
  \<open>first + last\<close> stays below \<open>2 ^ 64\<close> (at the start it is \<^verbatim>\<open>vec.size() - 1\<close>, afterwards
  both are at most \<^verbatim>\<open>vec.size()\<close>), \<^verbatim>\<open>mid - 1\<close> is guarded by \<^verbatim>\<open>assert(mid > 0)\<close>, and
  failure is reported as \<^verbatim>\<open>size_t(-1)\<close>.
\<close>

definition size_t_minus_one :: nat where
  "size_t_minus_one = 2 ^ 64 - 1"

definition pair_less ::
  "vertex_id_type \<times> vertex_id_type \<Rightarrow> vertex_id_type \<times> vertex_id_type \<Rightarrow> bool" where
  "pair_less a b \<longleftrightarrow> fst a < fst b \<or> (fst a = fst b \<and> snd a < snd b)"

function binary_search_loop ::
  "('v, 'e) graph_local_store \<Rightarrow> edge_id_type list \<Rightarrow> vertex_id_type \<Rightarrow> vertex_id_type \<Rightarrow>
   nat \<Rightarrow> nat \<Rightarrow> error + nat" where
  "binary_search_loop s vec source target first' last' =
     (if first' \<le> last' then
        (let mid = (first' + last') div 2 in
         if length vec \<le> mid then Inl AssertionFailure
         else if length (edges s) \<le> unat (vec ! mid) then Inl UndefinedBehaviour
         else
           (let mid_source = edge_source (edges s ! unat (vec ! mid));
                mid_target = edge_target (edges s ! unat (vec ! mid)) in
            if mid_source = source \<and> mid_target = target then Inr mid
            else if first' = last' then Inr size_t_minus_one
            else if pair_less (source, target) (mid_source, mid_target) then
              (if mid = 0 then Inl AssertionFailure
               else binary_search_loop s vec source target first' (mid - 1))
            else binary_search_loop s vec source target (mid + 1) last'))
      else Inr size_t_minus_one)"
  by pat_completeness auto
termination
  by (relation "measure (\<lambda>(s, vec, source, target, first', last'). last' + 1 - first')") auto

definition binary_search ::
  "('v, 'e) graph_local_store \<Rightarrow> edge_id_type list \<Rightarrow> vertex_id_type \<Rightarrow> vertex_id_type \<Rightarrow>
   error + nat" where
  "binary_search s vec source target =
     (if \<not> finalized s then Inl AssertionFailure
      else binary_search_loop s vec source target 0
             (if vec = [] then size_t_minus_one else length vec - 1))"

text \<open>
  \<^verbatim>\<open>find\<close> indexes \<^verbatim>\<open>in_edges[target]\<close> and \<^verbatim>\<open>out_edges[source]\<close> without a check of its
  own. When both are non-empty it searches \<^verbatim>\<open>in_edges[target]\<close> if that is strictly the
  shorter one and \<^verbatim>\<open>out_edges[source]\<close> otherwise.
\<close>

definition ls_find ::
  "vertex_id_type \<Rightarrow> vertex_id_type \<Rightarrow> ('v, 'e) graph_local_store \<Rightarrow>
   error + (bool \<times> edge_id_type)" where
  "ls_find source target s =
     (if length (in_edges s) \<le> unat target \<or> length (out_edges s) \<le> unat source
        then Inl UndefinedBehaviour
      else
       (let ins = in_edges s ! unat target; outs = out_edges s ! unat source in
        if length ins = 0 \<or> length outs = 0 then Inr (False, - 1)
        else if finalized s then
          (if length ins < length outs then
             (case binary_search s ins source target of
                Inl err \<Rightarrow> Inl err
              | Inr index \<Rightarrow> if index < length ins then Inr (True, ins ! index) else Inr (False, - 1))
           else
             (case binary_search s outs source target of
                Inl err \<Rightarrow> Inl err
              | Inr index \<Rightarrow> if index < length outs then Inr (True, outs ! index) else Inr (False, - 1)))
        else
          (if length ins < length outs then linear_search s ins source target
           else linear_search s outs source target)))"

text \<open>\<^verbatim>\<open>edge_id\<close>, the unchecked accessor: the edge must exist and its id be in range.\<close>

definition ls_edge_id ::
  "vertex_id_type \<Rightarrow> vertex_id_type \<Rightarrow> ('v, 'e) graph_local_store \<Rightarrow> error + edge_id_type" where
  "ls_edge_id source target s =
     (case ls_find source target s of
        Inl err \<Rightarrow> Inl err
      | Inr res \<Rightarrow>
          if \<not> fst res then Inl AssertionFailure
          else if nedges s \<le> unat (snd res) then Inl AssertionFailure
          else Inr (snd res))"

definition ls_rev_edge_id ::
  "edge_id_type \<Rightarrow> ('v, 'e) graph_local_store \<Rightarrow> error + edge_id_type" where
  "ls_rev_edge_id eid s =
     (if nedges s \<le> unat eid then Inl AssertionFailure
      else if length (edges s) \<le> unat eid then Inl UndefinedBehaviour
      else ls_edge_id (edge_target (edges s ! unat eid)) (edge_source (edges s ! unat eid)) s)"

subsection \<open>Finalizing\<close>

text \<open>
  \<^verbatim>\<open>finalize\<close> sorts every adjacency vector with \<^verbatim>\<open>std::sort\<close> under \<^verbatim>\<open>edge_id_less\<close>,
  which compares the edges behind two ids lexicographically and asserts that both ids
  are below \<^verbatim>\<open>nedges\<close>. Sorting a vector of fewer than two elements compares nothing;
  on a longer one every element is compared. The order of elements that compare equal
  is not fixed by \<^verbatim>\<open>std::sort\<close>; the model sorts by insertion and places an element
  behind the elements it compares equal to, so that equal elements keep their order, as
  in the insertion sort that \<^verbatim>\<open>std::sort\<close> of libstdc++ runs on a short vector.
\<close>

definition edge_less :: "edge \<Rightarrow> edge \<Rightarrow> bool" where
  "edge_less a b \<longleftrightarrow>
     edge_source a < edge_source b \<or> (edge_source a = edge_source b \<and> edge_target a < edge_target b)"

definition edge_id_less :: "('v, 'e) graph_local_store \<Rightarrow> edge_id_type \<Rightarrow> edge_id_type \<Rightarrow> bool" where
  "edge_id_less s a b = edge_less (edges s ! unat a) (edges s ! unat b)"

fun insert_sorted :: "('a \<Rightarrow> 'a \<Rightarrow> bool) \<Rightarrow> 'a \<Rightarrow> 'a list \<Rightarrow> 'a list" where
  "insert_sorted lt x [] = [x]"
| "insert_sorted lt x (y # ys) =
     (if lt x y then x # y # ys else y # insert_sorted lt x ys)"

definition std_sort :: "('a \<Rightarrow> 'a \<Rightarrow> bool) \<Rightarrow> 'a list \<Rightarrow> 'a list" where
  "std_sort lt xs = foldl (\<lambda>acc x. insert_sorted lt x acc) [] xs"

definition sort_edge_ids ::
  "('v, 'e) graph_local_store \<Rightarrow> edge_id_type list \<Rightarrow> error + edge_id_type list" where
  "sort_edge_ids s vec =
     (if length vec < 2 then Inr vec
      else if list_ex (\<lambda>a. nedges s \<le> unat a) vec then Inl AssertionFailure
      else if list_ex (\<lambda>a. length (edges s) \<le> unat a) vec then Inl UndefinedBehaviour
      else Inr (std_sort (edge_id_less s) vec))"

fun sort_all ::
  "('v, 'e) graph_local_store \<Rightarrow> edge_id_type list list \<Rightarrow> error + edge_id_type list list" where
  "sort_all s [] = Inr []"
| "sort_all s (vec # rest) =
     (case sort_edge_ids s vec of
        Inl err \<Rightarrow> Inl err
      | Inr vec' \<Rightarrow> (case sort_all s rest of Inl err \<Rightarrow> Inl err | Inr rest' \<Rightarrow> Inr (vec' # rest')))"

definition finalize :: "('v, 'e) graph_local_store \<Rightarrow> error + ('v, 'e) graph_local_store" where
  "finalize s =
     (if finalized s then Inr s
      else
        (case sort_all s (in_edges s) of
           Inl err \<Rightarrow> Inl err
         | Inr ins \<Rightarrow>
            (case sort_all s (out_edges s) of
               Inl err \<Rightarrow> Inl err
             | Inr outs \<Rightarrow> Inr (s\<lparr>in_edges := ins, out_edges := outs, finalized := True\<rparr>))))"

subsection \<open>Accessors\<close>

definition ls_num_in_neighbors :: "vertex_id_type \<Rightarrow> ('v, 'e) graph_local_store \<Rightarrow> error + nat" where
  "ls_num_in_neighbors v s =
     (if nvertices s \<le> unat v then Inl AssertionFailure
      else if length (in_edges s) \<le> unat v then Inl UndefinedBehaviour
      else Inr (length (in_edges s ! unat v)))"

definition ls_source :: "edge_id_type \<Rightarrow> ('v, 'e) graph_local_store \<Rightarrow> error + vertex_id_type" where
  "ls_source edge_id s =
     (if nedges s \<le> unat edge_id then Inl AssertionFailure
      else if length (edges s) \<le> unat edge_id then Inl UndefinedBehaviour
      else Inr (edge_source (edges s ! unat edge_id)))"

definition ls_target :: "edge_id_type \<Rightarrow> ('v, 'e) graph_local_store \<Rightarrow> error + vertex_id_type" where
  "ls_target edge_id s =
     (if nedges s \<le> unat edge_id then Inl AssertionFailure
      else if length (edges s) \<le> unat edge_id then Inl UndefinedBehaviour
      else Inr (edge_target (edges s ! unat edge_id)))"

definition ls_color :: "vertex_id_type \<Rightarrow> ('v, 'e) graph_local_store \<Rightarrow> error + vertex_color_type" where
  "ls_color vertex s =
     (if nvertices s \<le> unat vertex then Inl AssertionFailure
      else if length (vcolors s) \<le> unat vertex then Inl UndefinedBehaviour
      else Inr (vcolors s ! unat vertex))"

definition in_edge_ids :: "vertex_id_type \<Rightarrow> ('v, 'e) graph_local_store \<Rightarrow> error + edge_id_type list" where
  "in_edge_ids v s =
     (if length (in_edges s) \<le> unat v then Inl UndefinedBehaviour else Inr (in_edges s ! unat v))"

subsection \<open>Colouring\<close>

text \<open>
  The colours of the sources of a list of in-edges, in the order of the list. The source
  inserts them into a \<^verbatim>\<open>std::set\<close>, which it then walks in ascending order.
\<close>

fun neighbor_colors ::
  "('v, 'e) graph_local_store \<Rightarrow> edge_id_type list \<Rightarrow> error + vertex_color_type list" where
  "neighbor_colors s [] = Inr []"
| "neighbor_colors s (eid # rest) =
     (case ls_source eid s of
        Inl err \<Rightarrow> Inl err
      | Inr neighbor_vid \<Rightarrow>
         (case ls_color neighbor_vid s of
            Inl err \<Rightarrow> Inl err
          | Inr neighbor_color \<Rightarrow>
             (case neighbor_colors s rest of
                Inl err \<Rightarrow> Inl err
              | Inr cs \<Rightarrow> Inr (neighbor_color # cs))))"

definition std_set :: "vertex_color_type list \<Rightarrow> vertex_color_type list" where
  "std_set cs = std_sort (<) (remdups cs)"

text \<open>
  "Find the lowest free color": walk the neighbour colours upwards, stop at the first one
  that differs from the vertex colour, otherwise increment it; the \<^verbatim>\<open>assert\<close> guards
  against wrap-around of the colour.
\<close>

fun lowest_free_color :: "vertex_color_type \<Rightarrow> vertex_color_type list \<Rightarrow> error + vertex_color_type" where
  "lowest_free_color vertex_color [] = Inr vertex_color"
| "lowest_free_color vertex_color (neighbor_color # rest) =
     (if vertex_color \<noteq> neighbor_color then Inr vertex_color
      else if vertex_color + 1 = 0 then Inl AssertionFailure
      else lowest_free_color (vertex_color + 1) rest)"

text \<open>The "Recolor" loop over the permutation, carrying \<^verbatim>\<open>max_color\<close> and the store.\<close>

fun recolor ::
  "vertex_id_type list \<Rightarrow> nat \<times> ('v, 'e) graph_local_store \<Rightarrow>
   error + (nat \<times> ('v, 'e) graph_local_store)" where
  "recolor [] (max_color, s) = Inr (max_color, s)"
| "recolor (vid # rest) (max_color, s) =
     (case in_edge_ids vid s of
        Inl err \<Rightarrow> Inl err
      | Inr ins \<Rightarrow>
         (case neighbor_colors s ins of
            Inl err \<Rightarrow> Inl err
          | Inr cs \<Rightarrow>
             (case ls_color vid s of
                Inl err \<Rightarrow> Inl err
              | Inr c0 \<Rightarrow>
                 (case lowest_free_color c0 (std_set cs) of
                    Inl err \<Rightarrow> Inl err
                  | Inr vertex_color \<Rightarrow>
                      recolor rest (max max_color (unat vertex_color),
                                    s\<lparr>vcolors := (vcolors s)[unat vid := vertex_color]\<rparr>)))))"

text \<open>
  \<^verbatim>\<open>compute_coloring\<close>: all colours are reset to 0; the vertices are sorted by the pair
  \<^verbatim>\<open>(-num_in_neighbors(v), v)\<close>, whose first component is stored as a \<^verbatim>\<open>vertex_id_type\<close>,
  so it is the negation modulo \<open>2 ^ 32\<close>; the vertices are then recoloured in that order.
  The result is the number of colours.
\<close>

definition permutation :: "('v, 'e) graph_local_store \<Rightarrow> (vertex_id_type \<times> vertex_id_type) list" where
  "permutation s =
     std_sort pair_less
       (map (\<lambda>v. (- of_nat (length (in_edges s ! v)), of_nat v)) [0..<nvertices s])"

definition compute_coloring ::
  "('v, 'e) graph_local_store \<Rightarrow> error + (nat \<times> ('v, 'e) graph_local_store)" where
  "compute_coloring s =
     (if 2 ^ 32 \<le> int (nvertices s) then Inl Diverges
      else if length (vcolors s) < nvertices s \<or> length (in_edges s) < nvertices s
        then Inl UndefinedBehaviour
      else
        (case recolor (map snd (permutation s))
                (0, s\<lparr>vcolors := replicate (nvertices s) 0 @ drop (nvertices s) (vcolors s)\<rparr>) of
           Inl err \<Rightarrow> Inl err
         | Inr (max_color, s') \<Rightarrow> Inr (max_color + 1, s')))"

text \<open>
  \<^verbatim>\<open>valid_coloring\<close>: for every vertex and every in-edge of it, the colour of the vertex
  must differ from the colour of the edge's source; the first clash returns false.
\<close>

fun neighbor_clash ::
  "('v, 'e) graph_local_store \<Rightarrow> vertex_color_type \<Rightarrow> edge_id_type list \<Rightarrow> error + bool" where
  "neighbor_clash s vertex_color [] = Inr False"
| "neighbor_clash s vertex_color (eid # rest) =
     (case ls_source eid s of
        Inl err \<Rightarrow> Inl err
      | Inr neighbor_vid \<Rightarrow>
         (case ls_color neighbor_vid s of
            Inl err \<Rightarrow> Inl err
          | Inr neighbor_color \<Rightarrow>
              if vertex_color = neighbor_color then Inr True
              else neighbor_clash s vertex_color rest))"

fun valid_from :: "('v, 'e) graph_local_store \<Rightarrow> vertex_id_type list \<Rightarrow> error + bool" where
  "valid_from s [] = Inr True"
| "valid_from s (vid # rest) =
     (case ls_color vid s of
        Inl err \<Rightarrow> Inl err
      | Inr vertex_color \<Rightarrow>
         (case in_edge_ids vid s of
            Inl err \<Rightarrow> Inl err
          | Inr ins \<Rightarrow>
             (case neighbor_clash s vertex_color ins of
                Inl err \<Rightarrow> Inl err
              | Inr clash \<Rightarrow> if clash then Inr False else valid_from s rest)))"

definition valid_coloring :: "('v, 'e) graph_local_store \<Rightarrow> error + bool" where
  "valid_coloring s =
     (if 2 ^ 32 \<le> int (nvertices s) then Inl Diverges
      else valid_from s (map of_nat [0..<nvertices s]))"

subsection \<open>Building a store\<close>

text \<open>
  A sequence of \<^verbatim>\<open>add_edge\<close> calls, as the second pass of \<^verbatim>\<open>construct_local_fragment\<close>
  issues them; the first failing call ends the run.
\<close>

fun add_edges ::
  "(edge_id_type \<times> vertex_id_type \<times> vertex_id_type) list \<Rightarrow> ('v, 'e) graph_local_store \<Rightarrow>
   error + ('v, 'e) graph_local_store" where
  "add_edges [] s = Inr s"
| "add_edges ((eid, source, target) # rest) s =
     (case add_edge eid source target s of Inl err \<Rightarrow> Inl err | Inr s' \<Rightarrow> add_edges rest s')"

subsection \<open>Record access\<close>

text \<open>Running one fallible step after another: the first error ends the run.\<close>

definition and_then :: "error + 'a \<Rightarrow> ('a \<Rightarrow> error + 'b) \<Rightarrow> error + 'b" where
  "and_then r f = (case r of Inl err \<Rightarrow> Inl err | Inr x \<Rightarrow> f x)"

text \<open>
  Every accessor of a vertex record asserts \<^verbatim>\<open>v < nvertices\<close>, every accessor of an edge
  record \<^verbatim>\<open>edge_id < nedges\<close>. A version is read as \<^verbatim>\<open>uint64_t\<close> and stored into the
  62-bit field, which keeps its low 62 bits; setting a version clears \<^verbatim>\<open>snapshot_made\<close>.
\<close>

definition vertex_record ::
  "vertex_id_type \<Rightarrow> ('v, 'e) graph_local_store \<Rightarrow> error + 'v vdata_store" where
  "vertex_record v s =
     (if nvertices s \<le> unat v then Inl AssertionFailure
      else if length (vertices s) \<le> unat v then Inl UndefinedBehaviour
      else Inr (vertices s ! unat v))"

definition edge_record ::
  "edge_id_type \<Rightarrow> ('v, 'e) graph_local_store \<Rightarrow> error + 'e edata_store" where
  "edge_record edge_id s =
     (if nedges s \<le> unat edge_id then Inl AssertionFailure
      else if length (edgedata s) \<le> unat edge_id then Inl UndefinedBehaviour
      else Inr (edgedata s ! unat edge_id))"

definition ls_vertex_data :: "vertex_id_type \<Rightarrow> ('v, 'e) graph_local_store \<Rightarrow> error + 'v" where
  "ls_vertex_data v s = and_then (vertex_record v s) (\<lambda>r. Inr (vdata_store.data r))"

definition vertex_version :: "vertex_id_type \<Rightarrow> ('v, 'e) graph_local_store \<Rightarrow> error + 64 word" where
  "vertex_version v s = and_then (vertex_record v s) (\<lambda>r. Inr (ucast (vdata_store.version r)))"

definition vertex_modified :: "vertex_id_type \<Rightarrow> ('v, 'e) graph_local_store \<Rightarrow> error + bool" where
  "vertex_modified v s = and_then (vertex_record v s) (\<lambda>r. Inr (vdata_store.modified r))"

definition assign_vertex_data ::
  "vertex_id_type \<Rightarrow> 'v \<Rightarrow> ('v, 'e) graph_local_store \<Rightarrow> error + ('v, 'e) graph_local_store" where
  "assign_vertex_data v d s =
     and_then (vertex_record v s)
       (\<lambda>r. Inr (s\<lparr>vertices := (vertices s)[unat v := r\<lparr>vdata_store.data := d\<rparr>]\<rparr>))"

definition set_vertex_version ::
  "vertex_id_type \<Rightarrow> 64 word \<Rightarrow> ('v, 'e) graph_local_store \<Rightarrow> error + ('v, 'e) graph_local_store" where
  "set_vertex_version v ver s =
     and_then (vertex_record v s)
       (\<lambda>r. Inr (s\<lparr>vertices := (vertices s)[unat v :=
                     r\<lparr>vdata_store.version := ucast ver, vdata_store.snapshot_made := False\<rparr>]\<rparr>))"

definition ls_edge_data :: "edge_id_type \<Rightarrow> ('v, 'e) graph_local_store \<Rightarrow> error + 'e" where
  "ls_edge_data edge_id s = and_then (edge_record edge_id s) (\<lambda>r. Inr (edata_store.data r))"

definition edge_version :: "edge_id_type \<Rightarrow> ('v, 'e) graph_local_store \<Rightarrow> error + 64 word" where
  "edge_version edge_id s = and_then (edge_record edge_id s) (\<lambda>r. Inr (ucast (edata_store.version r)))"

definition edge_modified :: "edge_id_type \<Rightarrow> ('v, 'e) graph_local_store \<Rightarrow> error + bool" where
  "edge_modified edge_id s = and_then (edge_record edge_id s) (\<lambda>r. Inr (edata_store.modified r))"

definition assign_edge_data ::
  "edge_id_type \<Rightarrow> 'e \<Rightarrow> ('v, 'e) graph_local_store \<Rightarrow> error + ('v, 'e) graph_local_store" where
  "assign_edge_data edge_id d s =
     and_then (edge_record edge_id s)
       (\<lambda>r. Inr (s\<lparr>edgedata := (edgedata s)[unat edge_id := r\<lparr>edata_store.data := d\<rparr>]\<rparr>))"

definition set_edge_version ::
  "edge_id_type \<Rightarrow> 64 word \<Rightarrow> ('v, 'e) graph_local_store \<Rightarrow> error + ('v, 'e) graph_local_store" where
  "set_edge_version edge_id ver s =
     and_then (edge_record edge_id s)
       (\<lambda>r. Inr (s\<lparr>edgedata := (edgedata s)[unat edge_id :=
                     r\<lparr>edata_store.version := ucast ver, edata_store.snapshot_made := False\<rparr>]\<rparr>))"

section \<open>The distributed graph (\<^verbatim>\<open>distributed_graph.hpp\<close>)\<close>

text \<open>
  \<^verbatim>\<open>conditional_store<DataType>\<close> holds \<^verbatim>\<open>hasdata\<close> and \<^verbatim>\<open>data\<close>, and its \<^verbatim>\<open>save\<close> and
  \<^verbatim>\<open>load\<close> transmit \<^verbatim>\<open>data\<close> only when \<^verbatim>\<open>hasdata\<close> is set. It is modelled by an option:
  \<open>None\<close> is \<^verbatim>\<open>hasdata = false\<close>. The payload is a pair of the data and a version.
\<close>

type_synonym 'a conditional_store = "('a \<times> 64 word) option"

definition hasdata :: "'a conditional_store \<Rightarrow> bool" where
  "hasdata c \<longleftrightarrow> c \<noteq> None"

text \<open>
  The member functions that are invoked on a peer through \<^verbatim>\<open>rmi.remote_request\<close>
  (blocking: the caller's result is the peer's reply) and \<^verbatim>\<open>rmi.remote_call\<close> (one-way),
  with their arguments.
\<close>

datatype ('v, 'e) rpc =
    Num_in_neighbors vertex_id_type
  | Get_vertex_data vertex_id_type
  | Source edge_id_type
  | Target edge_id_type
  | Rev_edge_id edge_id_type
  | Get_edge_data_from_eid edge_id_type
  | Set_edge_data_from_eid edge_id_type 'e
  | Get_vertex_if_version_less_than vertex_id_type "64 word" "'v conditional_store"
  | Async_get_vertex_if_version_less_than procid_t vertex_id_type "64 word" "'v conditional_store"
  | Reply_vertex_data_and_version vertex_id_type "'v conditional_store"

datatype ('a, 'v, 'e) routed =
    Served 'a
  | Remote_request procid_t "('v, 'e) rpc"
  | Remote_call procid_t "('v, 'e) rpc"

text \<open>
  Modelled from the spec: \<^verbatim>\<open>caching_dht\<close> (\<^verbatim>\<open>caching_dht.hpp\<close>) is not part of the sources
  at hand; \<^verbatim>\<open>get_cached(id)\<close> returns \<open>(found, owner)\<close>, here the options
  \<open>globalvid2owner g id\<close> and \<open>globaleid2owner g id\<close>. The rest is the state of one peer
  as the class declares it; \<^verbatim>\<open>procid\<close> is \<^verbatim>\<open>rmi.procid()\<close>.
\<close>

record ('v, 'e) distributed_graph =
  procid :: procid_t
  localstore :: "('v, 'e) graph_local_store"
  global2localvid :: "vertex_id_type \<rightharpoonup> vertex_id_type"
  local2globalvid :: "vertex_id_type list"
  global2localeid :: "edge_id_type \<rightharpoonup> edge_id_type"
  local2globaleid :: "edge_id_type list"
  globalvid2owner :: "vertex_id_type \<rightharpoonup> procid_t"
  globaleid2owner :: "edge_id_type \<rightharpoonup> procid_t"
  edge_canonical_numbering :: bool
  localvid2owner :: "procid_t list"
  numglobalverts :: nat
  numglobaledges :: nat
  pending_async_updates :: "64 word"

text \<open>\<^verbatim>\<open>boost::unordered_map::operator[]\<close>: a missing key is inserted with value 0.\<close>

definition index_or_insert :: "('k \<rightharpoonup> 32 word) \<Rightarrow> 'k \<Rightarrow> 32 word \<times> ('k \<rightharpoonup> 32 word)" where
  "index_or_insert m k = (case m k of Some v \<Rightarrow> (v, m) | None \<Rightarrow> (0, m(k \<mapsto> 0)))"

definition at_index :: "'a list \<Rightarrow> 32 word \<Rightarrow> error + 'a" where
  "at_index xs i = (if length xs \<le> unat i then Inl UndefinedBehaviour else Inr (xs ! unat i))"

definition global_vid_in_local_fragment :: "('v, 'e) distributed_graph \<Rightarrow> vertex_id_type \<Rightarrow> bool" where
  "global_vid_in_local_fragment g globalvid \<longleftrightarrow> global2localvid g globalvid \<noteq> None"

definition global_eid_in_local_fragment :: "('v, 'e) distributed_graph \<Rightarrow> edge_id_type \<Rightarrow> bool" where
  "global_eid_in_local_fragment g globaleid \<longleftrightarrow> global2localeid g globaleid \<noteq> None"

subsection \<open>Routing of reads and writes\<close>

definition ask_vertex_owner ::
  "('v, 'e) distributed_graph \<Rightarrow> vertex_id_type \<Rightarrow> ('v, 'e) rpc \<Rightarrow> error + ('a, 'v, 'e) routed" where
  "ask_vertex_owner g vid call =
     (case globalvid2owner g vid of
        None \<Rightarrow> Inl AssertionFailure
      | Some owner \<Rightarrow> Inr (Remote_request owner call))"

text \<open>
  The remote branch of every operation on an edge id: the assertion on
  \<^verbatim>\<open>edge_canonical_numbering\<close>, then the directory, then the request.
\<close>

definition ask_edge_owner ::
  "('v, 'e) distributed_graph \<Rightarrow> edge_id_type \<Rightarrow> ('v, 'e) rpc \<Rightarrow> error + ('a, 'v, 'e) routed" where
  "ask_edge_owner g eid call =
     (if edge_canonical_numbering g then Inl AssertionFailure
      else (case globaleid2owner g eid of
              None \<Rightarrow> Inl AssertionFailure
            | Some owner \<Rightarrow> Inr (Remote_request owner call)))"

definition dg_num_in_neighbors ::
  "('v, 'e) distributed_graph \<Rightarrow> vertex_id_type \<Rightarrow> error + (nat, 'v, 'e) routed" where
  "dg_num_in_neighbors g vid =
     (case global2localvid g vid of
        Some localvid \<Rightarrow>
          and_then (at_index (localvid2owner g) localvid)
            (\<lambda>owner. if owner = procid g
               then and_then (ls_num_in_neighbors localvid (localstore g)) (\<lambda>n. Inr (Served n))
               else ask_vertex_owner g vid (Num_in_neighbors vid))
      | None \<Rightarrow> ask_vertex_owner g vid (Num_in_neighbors vid))"

definition dg_vertex_data :: "('v, 'e) distributed_graph \<Rightarrow> vertex_id_type \<Rightarrow> error + 'v" where
  "dg_vertex_data g vid =
     (case global2localvid g vid of
        None \<Rightarrow> Inl AssertionFailure
      | Some localvid \<Rightarrow> ls_vertex_data localvid (localstore g))"

definition get_vertex_data ::
  "('v, 'e) distributed_graph \<Rightarrow> vertex_id_type \<Rightarrow> error + ('v, 'v, 'e) routed" where
  "get_vertex_data g vid =
     (if global_vid_in_local_fragment g vid
      then and_then (dg_vertex_data g vid) (\<lambda>d. Inr (Served d))
      else ask_vertex_owner g vid (Get_vertex_data vid))"

definition dg_source ::
  "('v, 'e) distributed_graph \<Rightarrow> edge_id_type \<Rightarrow> error + (vertex_id_type, 'v, 'e) routed" where
  "dg_source g eid =
     (case global2localeid g eid of
        Some localeid \<Rightarrow>
          and_then (ls_source localeid (localstore g))
            (\<lambda>v. and_then (at_index (local2globalvid g) v) (\<lambda>gv. Inr (Served gv)))
      | None \<Rightarrow> ask_edge_owner g eid (Source eid))"

definition dg_target ::
  "('v, 'e) distributed_graph \<Rightarrow> edge_id_type \<Rightarrow> error + (vertex_id_type, 'v, 'e) routed" where
  "dg_target g eid =
     (case global2localeid g eid of
        Some localeid \<Rightarrow>
          and_then (ls_target localeid (localstore g))
            (\<lambda>v. and_then (at_index (local2globalvid g) v) (\<lambda>gv. Inr (Served gv)))
      | None \<Rightarrow> ask_edge_owner g eid (Target eid))"

definition dg_rev_edge_id ::
  "('v, 'e) distributed_graph \<Rightarrow> edge_id_type \<Rightarrow> error + (edge_id_type, 'v, 'e) routed" where
  "dg_rev_edge_id g eid =
     (case global2localeid g eid of
        Some localeid \<Rightarrow>
          and_then (ls_rev_edge_id localeid (localstore g))
            (\<lambda>r. and_then (at_index (local2globaleid g) r) (\<lambda>ge. Inr (Served ge)))
      | None \<Rightarrow> ask_edge_owner g eid (Rev_edge_id eid))"

definition dg_edge_data :: "('v, 'e) distributed_graph \<Rightarrow> edge_id_type \<Rightarrow> error + 'e" where
  "dg_edge_data g eid =
     (case global2localeid g eid of
        None \<Rightarrow> Inl AssertionFailure
      | Some localeid \<Rightarrow> ls_edge_data localeid (localstore g))"

definition get_edge_data_from_eid ::
  "('v, 'e) distributed_graph \<Rightarrow> edge_id_type \<Rightarrow> error + ('e, 'v, 'e) routed" where
  "get_edge_data_from_eid g eid =
     (if global_eid_in_local_fragment g eid
      then and_then (dg_edge_data g eid) (\<lambda>d. Inr (Served d))
      else ask_edge_owner g eid (Get_edge_data_from_eid eid))"

text \<open>
  \<^verbatim>\<open>set_edge_data_from_eid\<close> writes locally only when the edge is in the fragment and
  this peer owns the edge's target; every other case goes to the remote branch, as a
  one-way call when \<^verbatim>\<open>async\<close> is set. The result pairs the routing with the new state.
\<close>

definition set_edge_data_remote ::
  "('v, 'e) distributed_graph \<Rightarrow> edge_id_type \<Rightarrow> 'e \<Rightarrow> bool \<Rightarrow>
   error + ((unit, 'v, 'e) routed \<times> ('v, 'e) distributed_graph)" where
  "set_edge_data_remote g eid edata async =
     (if edge_canonical_numbering g then Inl AssertionFailure
      else (case globaleid2owner g eid of
              None \<Rightarrow> Inl AssertionFailure
            | Some owner \<Rightarrow>
                if async then Inr (Remote_call owner (Set_edge_data_from_eid eid edata), g)
                else Inr (Remote_request owner (Set_edge_data_from_eid eid edata), g)))"

definition set_edge_data_from_eid ::
  "('v, 'e) distributed_graph \<Rightarrow> edge_id_type \<Rightarrow> 'e \<Rightarrow> bool \<Rightarrow>
   error + ((unit, 'v, 'e) routed \<times> ('v, 'e) distributed_graph)" where
  "set_edge_data_from_eid g eid edata async =
     (case global2localeid g eid of
        Some localeid \<Rightarrow>
          and_then (ls_target localeid (localstore g))
            (\<lambda>t. and_then (at_index (localvid2owner g) t)
               (\<lambda>owner. if owner = procid g
                  then and_then (assign_edge_data localeid edata (localstore g))
                         (\<lambda>ls. Inr (Served (), g\<lparr>localstore := ls\<rparr>))
                  else set_edge_data_remote g eid edata async))
      | None \<Rightarrow> set_edge_data_remote g eid edata async)"

subsection \<open>A blocking read across peers\<close>

text \<open>
  \<^verbatim>\<open>rmi.remote_request\<close> runs the named member function on the named peer and hands its
  result back. For \<^verbatim>\<open>get_vertex_data\<close> this is the same function on the other peer, which
  may route again; \<open>hops\<close> bounds the chain, and running out of it is \<open>None\<close>. The result
  is the payload together with the peers that were sent a request, in order.
  \<^verbatim>\<open>get_vertex_data\<close> sends nothing but \<^verbatim>\<open>get_vertex_data\<close> requests; the remaining cases
  do not arise.
\<close>

fun get_vertex_data_over ::
  "nat \<Rightarrow> (procid_t \<Rightarrow> ('v, 'e) distributed_graph) \<Rightarrow> procid_t \<Rightarrow> vertex_id_type \<Rightarrow>
   (error + ('v \<times> procid_t list)) option" where
  "get_vertex_data_over 0 peers p vid = None"
| "get_vertex_data_over (Suc hops) peers p vid =
     (case get_vertex_data (peers p) vid of
        Inl err \<Rightarrow> Some (Inl err)
      | Inr (Served d) \<Rightarrow> Some (Inr (d, []))
      | Inr (Remote_request owner (Get_vertex_data v)) \<Rightarrow>
          (case get_vertex_data_over hops peers owner v of
             None \<Rightarrow> None
           | Some (Inl err) \<Rightarrow> Some (Inl err)
           | Some (Inr (d, asked)) \<Rightarrow> Some (Inr (d, owner # asked)))
      | Inr _ \<Rightarrow> Some (Inl UndefinedBehaviour))"

subsection \<open>Ghost synchronization: the primitives run on the owner\<close>

text \<open>
  \<^verbatim>\<open>get_vertex_if_version_less_than(vid, vertexversion, vdata)\<close>. The local id is read with
  \<^verbatim>\<open>global2localvid[vid]\<close>; the stored version is compared with \<^verbatim>\<open>vertexversion\<close> as
  \<^verbatim>\<open>uint64_t\<close>; the result pairs the returned store with the new state of the peer.
\<close>

definition get_vertex_if_version_less_than ::
  "vertex_id_type \<Rightarrow> 64 word \<Rightarrow> 'v conditional_store \<Rightarrow> ('v, 'e) distributed_graph \<Rightarrow>
   error + ('v conditional_store \<times> ('v, 'e) distributed_graph)" where
  "get_vertex_if_version_less_than vid vertexversion vdata g =
     (let (localvid, m) = index_or_insert (global2localvid g) vid;
          g1 = g\<lparr>global2localvid := m\<rparr> in
      and_then (vertex_version localvid (localstore g1))
        (\<lambda>local_vertex_version.
           if vertexversion < local_vertex_version then
             and_then (ls_vertex_data localvid (localstore g1))
               (\<lambda>d. Inr (Some (d, local_vertex_version), g1))
           else if local_vertex_version < vertexversion then
             (case vdata of
                None \<Rightarrow> Inl AssertionFailure
              | Some p \<Rightarrow>
                  and_then (assign_vertex_data localvid (fst p) (localstore g1))
                    (\<lambda>ls1. and_then (set_vertex_version localvid vertexversion ls1)
                       (\<lambda>ls2. Inr (None, g1\<lparr>localstore := ls2\<rparr>))))
           else Inr (None, g1)))"

definition get_edge_if_version_less_than ::
  "edge_id_type \<Rightarrow> 64 word \<Rightarrow> 'e conditional_store \<Rightarrow> ('v, 'e) distributed_graph \<Rightarrow>
   error + ('e conditional_store \<times> ('v, 'e) distributed_graph)" where
  "get_edge_if_version_less_than eid edgeversion edata g =
     (let (localeid, m) = index_or_insert (global2localeid g) eid;
          g1 = g\<lparr>global2localeid := m\<rparr> in
      and_then (edge_version localeid (localstore g1))
        (\<lambda>local_edge_version.
           if edgeversion < local_edge_version then
             and_then (ls_edge_data localeid (localstore g1))
               (\<lambda>d. Inr (Some (d, local_edge_version), g1))
           else if local_edge_version < edgeversion then
             (case edata of
                None \<Rightarrow> Inl AssertionFailure
              | Some p \<Rightarrow>
                  and_then (assign_edge_data localeid (fst p) (localstore g1))
                    (\<lambda>ls1. and_then (set_edge_version localeid edgeversion ls1)
                       (\<lambda>ls2. Inr (None, g1\<lparr>localstore := ls2\<rparr>))))
           else Inr (None, g1)))"

definition get_edge_if_version_less_than2 ::
  "vertex_id_type \<Rightarrow> vertex_id_type \<Rightarrow> 64 word \<Rightarrow> 'e conditional_store \<Rightarrow>
   ('v, 'e) distributed_graph \<Rightarrow> error + ('e conditional_store \<times> ('v, 'e) distributed_graph)" where
  "get_edge_if_version_less_than2 source target edgeversion edata g =
     (let (localsource, m1) = index_or_insert (global2localvid g) source;
          (localtarget, m2) = index_or_insert m1 target;
          g1 = g\<lparr>global2localvid := m2\<rparr> in
      and_then (ls_find localsource localtarget (localstore g1))
        (\<lambda>findret.
           if \<not> fst findret then Inl AssertionFailure
           else
            (let localeid = snd findret in
             and_then (edge_version localeid (localstore g1))
               (\<lambda>local_edge_version.
                  if edgeversion < local_edge_version then
                    and_then (ls_edge_data localeid (localstore g1))
                      (\<lambda>d. Inr (Some (d, local_edge_version), g1))
                  else if local_edge_version < edgeversion then
                    (case edata of
                       None \<Rightarrow> Inl AssertionFailure
                     | Some p \<Rightarrow>
                         and_then (assign_edge_data localeid (fst p) (localstore g1))
                           (\<lambda>ls1. and_then (set_edge_version localeid edgeversion ls1)
                              (\<lambda>ls2. Inr (None, g1\<lparr>localstore := ls2\<rparr>))))
                  else Inr (None, g1)))))"

subsection \<open>Ghost synchronization: the caller\<close>

text \<open>
  \<^verbatim>\<open>update_vertex_data_and_version\<close> overwrites data and version of the replica when the
  reply carries data. The source writes the version through the value returned by
  \<^verbatim>\<open>localstore.vertex_version(localvid)\<close>; the model stores it into the version field and
  leaves the flags as they are.
\<close>

definition overwrite_vertex ::
  "vertex_id_type \<Rightarrow> 'v \<times> 64 word \<Rightarrow> ('v, 'e) graph_local_store \<Rightarrow>
   error + ('v, 'e) graph_local_store" where
  "overwrite_vertex localvid p s =
     and_then (vertex_record localvid s)
       (\<lambda>r. Inr (s\<lparr>vertices := (vertices s)[unat localvid :=
                     r\<lparr>vdata_store.data := fst p, vdata_store.version := ucast (snd p)\<rparr>]\<rparr>))"

definition update_vertex_data_and_version ::
  "vertex_id_type \<Rightarrow> 'v conditional_store \<Rightarrow> ('v, 'e) distributed_graph \<Rightarrow>
   error + ('v, 'e) distributed_graph" where
  "update_vertex_data_and_version vid vstore g =
     (case vstore of
        None \<Rightarrow> Inr g
      | Some p \<Rightarrow>
         (let (localvid, m) = index_or_insert (global2localvid g) vid;
              g1 = g\<lparr>global2localvid := m\<rparr> in
          and_then (overwrite_vertex localvid p (localstore g1))
            (\<lambda>ls. Inr (g1\<lparr>localstore := ls\<rparr>))))"

text \<open>The reply handler of the asynchronous form: merge, then \<^verbatim>\<open>pending_async_updates.dec()\<close>.\<close>

definition reply_vertex_data_and_version ::
  "vertex_id_type \<Rightarrow> 'v conditional_store \<Rightarrow> ('v, 'e) distributed_graph \<Rightarrow>
   error + ('v, 'e) distributed_graph" where
  "reply_vertex_data_and_version vid vstore g =
     and_then (update_vertex_data_and_version vid vstore g)
       (\<lambda>g'. Inr (g'\<lparr>pending_async_updates := pending_async_updates g' - 1\<rparr>))"

text \<open>
  The handler on the owner of the asynchronous form: run the primitive, send the result
  back with a one-way call.
\<close>

definition async_get_vertex_if_version_less_than ::
  "procid_t \<Rightarrow> vertex_id_type \<Rightarrow> 64 word \<Rightarrow> 'v conditional_store \<Rightarrow> ('v, 'e) distributed_graph \<Rightarrow>
   error + ((unit, 'v, 'e) routed \<times> ('v, 'e) distributed_graph)" where
  "async_get_vertex_if_version_less_than srcproc vid vertexversion vdata g =
     and_then (get_vertex_if_version_less_than vid vertexversion vdata g)
       (\<lambda>(ret, g'). Inr (Remote_call srcproc (Reply_vertex_data_and_version vid ret), g'))"

definition is_ghost ::
  "vertex_id_type \<Rightarrow> ('v, 'e) distributed_graph \<Rightarrow> error + (bool \<times> ('v, 'e) distributed_graph)" where
  "is_ghost vid g =
     (let (localvid, m) = index_or_insert (global2localvid g) vid in
      and_then (at_index (localvid2owner g) localvid)
        (\<lambda>owner. Inr (owner \<noteq> procid g, g\<lparr>global2localvid := m\<rparr>)))"

text \<open>
  \<^verbatim>\<open>synchronize_vertex(vid, async)\<close>. The ghost's payload is sent only when its
  \<^verbatim>\<open>modified\<close> flag is set. In the synchronous form the reply of the blocking request
  (the parameter \<open>reply\<close>) is merged into the replica. In the asynchronous form a one-way
  call is fired; there is nothing to merge, the merge is the reply handler's. The result
  lists the messages sent.
\<close>

definition synchronize_vertex ::
  "vertex_id_type \<Rightarrow> bool \<Rightarrow> 'v conditional_store \<Rightarrow> ('v, 'e) distributed_graph \<Rightarrow>
   error + ((unit, 'v, 'e) routed list \<times> ('v, 'e) distributed_graph)" where
  "synchronize_vertex vid async reply g =
     (let (localvid, m) = index_or_insert (global2localvid g) vid;
          g1 = g\<lparr>global2localvid := m\<rparr> in
      and_then (is_ghost vid g1)
        (\<lambda>(ghost, g2).
           if \<not> ghost then Inr ([], g2)
           else
             and_then (vertex_modified localvid (localstore g2))
               (\<lambda>has. and_then (ls_vertex_data localvid (localstore g2))
               (\<lambda>d. and_then (vertex_version localvid (localstore g2))
               (\<lambda>ver. and_then (at_index (localvid2owner g2) localvid)
               (\<lambda>owner.
                  (let out = (if has then Some (d, 0) else None) in
                   if \<not> async then
                     and_then (case reply of
                                 None \<Rightarrow> Inr (localstore g2)
                               | Some p \<Rightarrow> overwrite_vertex localvid p (localstore g2))
                       (\<lambda>ls. Inr ([Remote_request owner (Get_vertex_if_version_less_than vid ver out)],
                                  g2\<lparr>localstore := ls\<rparr>))
                   else
                     Inr ([Remote_call owner
                             (Async_get_vertex_if_version_less_than (procid g2) vid ver out)],
                          g2))))))))"

text \<open>
  \<^verbatim>\<open>wait_for_all_async_syncs\<close> spins on the counter. Nothing else runs in a sequential
  run of one peer, so the call returns exactly when the counter is zero on entry.
\<close>

partial_function (option) wait_for_all_async_syncs ::
  "('v, 'e) distributed_graph \<Rightarrow> ('v, 'e) distributed_graph option" where
  "wait_for_all_async_syncs g =
     (if pending_async_updates g \<noteq> 0 then wait_for_all_async_syncs g else Some g)"

section \<open>The queued FIFO scheduler (\<^verbatim>\<open>queued_fifo_scheduler.hpp\<close>)\<close>

text \<open>
  Modelled from the spec: \<^verbatim>\<open>vertex_map\<close> (\<^verbatim>\<open>vertex_map.hpp\<close>) is not part of the
  sources at hand. It maps a vertex to its pending message: \<^verbatim>\<open>add(v, m)\<close> combines \<open>m\<close>
  into the pending message with the message type's \<^verbatim>\<open>+=\<close> and returns true iff the
  vertex had none; \<^verbatim>\<open>test_and_get(v, m)\<close> removes and returns the pending message, or
  returns false when there is none.
\<close>

type_synonym 'm vertex_map = "vertex_id_type \<rightharpoonup> 'm"

definition vertex_map_add ::
  "('m \<Rightarrow> 'm \<Rightarrow> 'm) \<Rightarrow> vertex_id_type \<Rightarrow> 'm \<Rightarrow> 'm vertex_map \<Rightarrow> bool \<times> 'm vertex_map" where
  "vertex_map_add plus_eq vid msg vm =
     (case vm vid of
        None \<Rightarrow> (True, vm(vid \<mapsto> msg))
      | Some old \<Rightarrow> (False, vm(vid \<mapsto> plus_eq old msg)))"

definition test_and_get :: "vertex_id_type \<Rightarrow> 'm vertex_map \<Rightarrow> 'm option \<times> 'm vertex_map" where
  "test_and_get vid vm = (vm vid, vm(vid := None))"

datatype status_enum = NEW_TASK | EMPTY

text \<open>
  The queues of vertex ids. The locks and the termination detector are left out: one
  call runs at a time.
\<close>

record 'm queued_fifo_scheduler =
  messages :: "'m vertex_map"
  master_queue :: "vertex_id_type list list"
  sub_queue_size :: nat
  in_queues :: "vertex_id_type list list"
  out_queues :: "vertex_id_type list list"

definition new_scheduler :: "nat \<Rightarrow> nat option \<Rightarrow> 'm queued_fifo_scheduler" where
  "new_scheduler ncpus queuesize =
     \<lparr>messages = Map.empty, master_queue = [],
      sub_queue_size = (case queuesize of None \<Rightarrow> 100 | Some n \<Rightarrow> n),
      in_queues = replicate ncpus [], out_queues = replicate ncpus []\<rparr>"

definition start :: "'m queued_fifo_scheduler \<Rightarrow> 'm queued_fifo_scheduler" where
  "start s = s\<lparr>master_queue := master_queue s @ in_queues s,
              in_queues := map (\<lambda>q. []) (in_queues s)\<rparr>"

text \<open>
  \<^verbatim>\<open>schedule(vid, msg)\<close>: when the vertex had no pending message, its id is pushed onto
  the in-queue of the worker \<^verbatim>\<open>random::rand() % in_queues.size()\<close> (\<open>rand\<close> is the number
  drawn); an in-queue longer than \<^verbatim>\<open>sub_queue_size\<close> is moved to the end of the master
  queue.
\<close>

definition push_in_queue ::
  "nat \<Rightarrow> vertex_id_type \<Rightarrow> 'm queued_fifo_scheduler \<Rightarrow> error + 'm queued_fifo_scheduler" where
  "push_in_queue cpuid vid s =
     (if length (in_queues s) \<le> cpuid then Inl UndefinedBehaviour
      else
       (let queue = in_queues s ! cpuid @ [vid] in
        if sub_queue_size s < length queue
        then Inr (s\<lparr>master_queue := master_queue s @ [queue], in_queues := (in_queues s)[cpuid := []]\<rparr>)
        else Inr (s\<lparr>in_queues := (in_queues s)[cpuid := queue]\<rparr>)))"

definition schedule ::
  "nat \<Rightarrow> ('m \<Rightarrow> 'm \<Rightarrow> 'm) \<Rightarrow> vertex_id_type \<Rightarrow> 'm \<Rightarrow> 'm queued_fifo_scheduler \<Rightarrow>
   error + 'm queued_fifo_scheduler" where
  "schedule rand plus_eq vid msg s =
     (let (fresh, vm) = vertex_map_add plus_eq vid msg (messages s);
          s1 = s\<lparr>messages := vm\<rparr> in
      if fresh then
        (if length (in_queues s1) = 0 then Inl UndefinedBehaviour
         else push_in_queue (rand mod length (in_queues s1)) vid s1)
      else Inr s1)"

text \<open>
  The two refills of \<^verbatim>\<open>get_next\<close>: an empty out-queue takes the front sub-queue of the
  master queue, and, if still empty, the worker's own in-queue.
\<close>

definition take_from_master :: "nat \<Rightarrow> 'm queued_fifo_scheduler \<Rightarrow> 'm queued_fifo_scheduler" where
  "take_from_master cpuid s =
     (if out_queues s ! cpuid = [] then
        (case master_queue s of
           [] \<Rightarrow> s
         | q # rest \<Rightarrow> s\<lparr>out_queues := (out_queues s)[cpuid := q], master_queue := rest\<rparr>)
      else s)"

definition take_from_in_queue :: "nat \<Rightarrow> 'm queued_fifo_scheduler \<Rightarrow> 'm queued_fifo_scheduler" where
  "take_from_in_queue cpuid s =
     (if out_queues s ! cpuid = [] \<and> in_queues s ! cpuid \<noteq> []
      then s\<lparr>out_queues := (out_queues s)[cpuid := in_queues s ! cpuid],
             in_queues := (in_queues s)[cpuid := []]\<rparr>
      else s)"

text \<open>The entries that a call of \<^verbatim>\<open>get_next(cpuid)\<close> can still pop.\<close>

definition reachable_entries :: "nat \<Rightarrow> 'm queued_fifo_scheduler \<Rightarrow> vertex_id_type list" where
  "reachable_entries cpuid s =
     out_queues s ! cpuid @ concat (master_queue s) @ in_queues s ! cpuid"

text \<open>
  \<^verbatim>\<open>get_next(cpuid, ret_vid, ret_msg)\<close>: the \<^verbatim>\<open>while(1)\<close> loop. Each round refills the
  out-queue, then either returns \<open>EMPTY\<close> or pops the front id; a popped id without a
  pending message is skipped and the loop goes on. \<open>ret_vid\<close> and \<open>ret_msg\<close> are the
  reference parameters.
\<close>

function get_next ::
  "nat \<Rightarrow> vertex_id_type \<Rightarrow> 'm \<Rightarrow> 'm queued_fifo_scheduler \<Rightarrow>
   error + (status_enum \<times> vertex_id_type \<times> 'm \<times> 'm queued_fifo_scheduler)" where
  "get_next cpuid ret_vid ret_msg s =
     (if length (out_queues s) \<le> cpuid \<or> length (in_queues s) \<le> cpuid
      then Inl UndefinedBehaviour
      else
       (let s2 = take_from_in_queue cpuid (take_from_master cpuid s) in
        case out_queues s2 ! cpuid of
          [] \<Rightarrow> Inr (EMPTY, ret_vid, ret_msg, s2)
        | vid # queue \<Rightarrow>
           (let (got, vm) = test_and_get vid (messages s2);
                s3 = s2\<lparr>out_queues := (out_queues s2)[cpuid := queue], messages := vm\<rparr> in
            case got of
              Some msg \<Rightarrow> Inr (NEW_TASK, vid, msg, s3)
            | None \<Rightarrow> get_next cpuid vid ret_msg s3)))"
  by pat_completeness auto
termination
proof (relation "measure (\<lambda>(cpuid, ret_vid, ret_msg, s). length (reachable_entries cpuid s))",
    goal_cases)
  case 1
  show ?case by simp
next
  case (2 cpuid ret_vid ret_msg s s2 vid queue p got vm s3)
  have len: "cpuid < length (out_queues s)" "cpuid < length (in_queues s)"
    using 2(1) by auto
  have same: "length (reachable_entries cpuid s2) = length (reachable_entries cpuid s)"
    using len unfolding 2(2)
    by (auto simp: reachable_entries_def take_from_in_queue_def take_from_master_def
        split: list.splits)
  have len2: "cpuid < length (out_queues s2)"
    using len unfolding 2(2)
    by (auto simp: take_from_in_queue_def take_from_master_def split: list.splits)
  have "length (reachable_entries cpuid s3) < length (reachable_entries cpuid s2)"
    using 2(3) len2 unfolding 2(6) by (simp add: reachable_entries_def)
  with same show ?case by simp
qed

section \<open>Example states\<close>

text \<open>
  Two workers. Worker 0 can reach the stale ids 3, 4 and 5 (no message is pending for
  them); vertex 7 is scheduled and waits in the in-queue of worker 1.
\<close>

definition two_workers :: "unit queued_fifo_scheduler" where
  "two_workers =
     \<lparr>messages = [7 \<mapsto> ()], master_queue = [[4], []], sub_queue_size = 100,
      in_queues = [[5], [7]], out_queues = [[3], []]\<rparr>"

text \<open>
  A fragment for examples: peer 1 holds the global vertices 42 and 43 (local 0 and 1), both
  its own, and the global edge 7 (local 0) from 42 to 43; every record is at version 5.
\<close>

definition owner_store :: "(nat, nat) graph_local_store" where
  "owner_store =
     \<lparr>vertices = [\<lparr>vdata_store.data = 10, modified = False, snapshot_made = True, version = 5\<rparr>,
                  \<lparr>vdata_store.data = 11, modified = False, snapshot_made = True, version = 5\<rparr>],
      edgedata = [\<lparr>edata_store.data = 20, modified = False, snapshot_made = True, version = 5\<rparr>],
      vertex_store_file = [], edge_store_file = [],
      edges = [\<lparr>edge_source = 0, edge_target = 1\<rparr>],
      in_edges = [[], [0]], out_edges = [[0], []], vcolors = [0, 1],
      nvertices = 2, nedges = 1, finalized = True, changeid = 0\<rparr>"

definition owner_fragment :: "(nat, nat) distributed_graph" where
  "owner_fragment =
     \<lparr>procid = 1, localstore = owner_store,
      global2localvid = [42 \<mapsto> 0, 43 \<mapsto> 1], local2globalvid = [42, 43],
      global2localeid = [7 \<mapsto> 0], local2globaleid = [7],
      globalvid2owner = [42 \<mapsto> 1, 43 \<mapsto> 1], globaleid2owner = [7 \<mapsto> 1],
      edge_canonical_numbering = False, localvid2owner = [1, 1],
      numglobalverts = 2, numglobaledges = 1, pending_async_updates = 0\<rparr>"

text \<open>
  A second fragment: peer 0 owns the global vertex 40 (local 0) and holds the global
  vertex 42 (local 1) as a ghost owned by peer 1, with payload 7 at version 3. Its one
  edge runs from 40 to 42, so its target is the ghost; there is no edge back. The fragment
  is in canonical edge numbering mode. The directory also knows vertex 43 of peer 1 and
  vertex 99 of peer 2, which are not in the fragment.
\<close>

definition ghost_store :: "(nat, nat) graph_local_store" where
  "ghost_store =
     \<lparr>vertices = [\<lparr>vdata_store.data = 8, modified = False, snapshot_made = False, version = 1\<rparr>,
                  \<lparr>vdata_store.data = 7, modified = False, snapshot_made = False, version = 3\<rparr>],
      edgedata = [\<lparr>edata_store.data = 30, modified = False, snapshot_made = False, version = 2\<rparr>],
      vertex_store_file = [], edge_store_file = [],
      edges = [\<lparr>edge_source = 0, edge_target = 1\<rparr>],
      in_edges = [[], [0]], out_edges = [[0], []], vcolors = [0, 1],
      nvertices = 2, nedges = 1, finalized = True, changeid = 0\<rparr>"

definition ghost_fragment :: "(nat, nat) distributed_graph" where
  "ghost_fragment =
     \<lparr>procid = 0, localstore = ghost_store,
      global2localvid = [40 \<mapsto> 0, 42 \<mapsto> 1], local2globalvid = [40, 42],
      global2localeid = [0 \<mapsto> 0], local2globaleid = [0],
      globalvid2owner = [40 \<mapsto> 0, 42 \<mapsto> 1, 43 \<mapsto> 1, 99 \<mapsto> 2],
      globaleid2owner = Map.empty,
      edge_canonical_numbering = True, localvid2owner = [0, 1],
      numglobalverts = 3, numglobaledges = 1, pending_async_updates = 0\<rparr>"

section \<open>Saving and loading a store\<close>

text \<open>
  \<^verbatim>\<open>save\<close> writes the counts, the edge structure, the adjacency vectors, the colours and
  the \<^verbatim>\<open>finalized\<close> flag as values, and then two raw blocks of memory:
  \<^verbatim>\<open>serialize(arc, vertices, sizeof(VertexData) * nvertices)\<close> and the same for the edge
  records. \<^verbatim>\<open>load\<close> reads the values, allocates fresh record arrays and reads the two
  blocks back over their first bytes. The blocks are raw memory, so the record arrays are
  modelled by their bytes here.

  The payload type is described by its size and its object representation. The layout
  of \<^verbatim>\<open>vdata_store\<close> and \<^verbatim>\<open>edata_store\<close> is the one \<^verbatim>\<open>g++\<close> gives on x86-64 for a payload
  whose size is a multiple of 8 and whose alignment is at most 8: the payload at offset
  0, then one 64-bit little-endian unit shared by the three bit-fields, \<^verbatim>\<open>modified\<close> in
  bit 0, \<^verbatim>\<open>snapshot_made\<close> in bit 1, \<^verbatim>\<open>version\<close> in bits 2 to 63. The size of the record is
  the size of the payload plus 8.
\<close>

type_synonym byte = "8 word"

record 'a pod =
  sizeof :: nat
  to_bytes :: "'a \<Rightarrow> byte list"
  of_bytes :: "byte list \<Rightarrow> 'a"

definition word_bytes :: "64 word \<Rightarrow> byte list" where
  "word_bytes w = map (\<lambda>i. ucast (drop_bit (8 * i) w)) [0..<8]"

definition bytes_word :: "byte list \<Rightarrow> 64 word" where
  "bytes_word bs = foldr (\<lambda>b w. ucast b OR push_bit 8 w) bs 0"

definition flags_unit :: "bool \<Rightarrow> bool \<Rightarrow> 62 word \<Rightarrow> 64 word" where
  "flags_unit m s v = (if m then 1 else 0) OR (if s then 2 else 0) OR push_bit 2 (ucast v)"

definition sizeof_store :: "'a pod \<Rightarrow> nat" where
  "sizeof_store P = sizeof P + 8"

definition vdata_store_bytes :: "'v pod \<Rightarrow> 'v vdata_store \<Rightarrow> byte list" where
  "vdata_store_bytes P r =
     resize (sizeof P) 0 (to_bytes P (vdata_store.data r))
     @ word_bytes (flags_unit (vdata_store.modified r) (vdata_store.snapshot_made r)
                     (vdata_store.version r))"

definition vdata_store_of_bytes :: "'v pod \<Rightarrow> byte list \<Rightarrow> 'v vdata_store" where
  "vdata_store_of_bytes P bs =
     (let w = bytes_word (take 8 (drop (sizeof P) bs)) in
      \<lparr>vdata_store.data = of_bytes P (take (sizeof P) bs),
       modified = bit w 0, snapshot_made = bit w 1, version = ucast (drop_bit 2 w)\<rparr>)"

definition edata_store_bytes :: "'e pod \<Rightarrow> 'e edata_store \<Rightarrow> byte list" where
  "edata_store_bytes P r =
     resize (sizeof P) 0 (to_bytes P (edata_store.data r))
     @ word_bytes (flags_unit (edata_store.modified r) (edata_store.snapshot_made r)
                     (edata_store.version r))"

definition edata_store_of_bytes :: "'e pod \<Rightarrow> byte list \<Rightarrow> 'e edata_store" where
  "edata_store_of_bytes P bs =
     (let w = bytes_word (take 8 (drop (sizeof P) bs)) in
      \<lparr>edata_store.data = of_bytes P (take (sizeof P) bs),
       modified = bit w 0, snapshot_made = bit w 1, version = ucast (drop_bit 2 w)\<rparr>)"

text \<open>An array of records as memory, and memory read as an array of \<open>n\<close> records.\<close>

definition array_bytes :: "('r \<Rightarrow> byte list) \<Rightarrow> 'r list \<Rightarrow> byte list" where
  "array_bytes enc rs = concat (map enc rs)"

definition array_of_bytes :: "(byte list \<Rightarrow> 'r) \<Rightarrow> nat \<Rightarrow> nat \<Rightarrow> byte list \<Rightarrow> 'r list" where
  "array_of_bytes dec stride n mem =
     map (\<lambda>i. dec (take stride (drop (i * stride) mem))) [0..<n]"

text \<open>
  Modelled from the spec: the archive classes and \<^verbatim>\<open>serialize(arc, ptr, len)\<close> /
  \<^verbatim>\<open>deserialize(arc, ptr, len)\<close> are not part of the sources at hand. The archive is
  "self-describing": its values are read back as written, and a raw block of \<open>len\<close>
  bytes is copied from the memory at \<open>ptr\<close> and back to it as it is.
\<close>

definition serialize :: "byte list \<Rightarrow> nat \<Rightarrow> byte list" where
  "serialize mem len = take len mem"

definition deserialize :: "byte list \<Rightarrow> byte list \<Rightarrow> nat \<Rightarrow> byte list" where
  "deserialize block mem len = take len block @ drop len mem"

record archive =
  arc_nvertices :: nat
  arc_nedges :: nat
  arc_edges :: "edge list"
  arc_in_edges :: "edge_id_type list list"
  arc_out_edges :: "edge_id_type list list"
  arc_vcolors :: "vertex_color_type list"
  arc_finalized :: bool
  arc_vertices :: "byte list"
  arc_edgedata :: "byte list"

definition save :: "'v pod \<Rightarrow> 'e pod \<Rightarrow> ('v, 'e) graph_local_store \<Rightarrow> archive" where
  "save P Q s =
     \<lparr>arc_nvertices = nvertices s, arc_nedges = nedges s, arc_edges = edges s,
      arc_in_edges = in_edges s, arc_out_edges = out_edges s, arc_vcolors = vcolors s,
      arc_finalized = finalized s,
      arc_vertices = serialize (array_bytes (vdata_store_bytes P) (vertices s))
                       (sizeof P * nvertices s),
      arc_edgedata = serialize (array_bytes (edata_store_bytes Q) (edgedata s))
                       (sizeof Q * nedges s)\<rparr>"

definition load ::
  "'v pod \<Rightarrow> 'e pod \<Rightarrow> (nat \<Rightarrow> 'v vdata_store) \<Rightarrow> (nat \<Rightarrow> 'e edata_store) \<Rightarrow> archive \<Rightarrow>
   ('v, 'e) graph_local_store \<Rightarrow> ('v, 'e) graph_local_store" where
  "load P Q vmem emem arc s =
     (let s1 = allocate_graph_data vmem emem
                 ((clear s)\<lparr>nvertices := arc_nvertices arc, nedges := arc_nedges arc,
                             edges := arc_edges arc, in_edges := arc_in_edges arc,
                             out_edges := arc_out_edges arc, vcolors := arc_vcolors arc,
                             finalized := arc_finalized arc\<rparr>)
      in s1\<lparr>vertices :=
               array_of_bytes (vdata_store_of_bytes P) (sizeof_store P) (nvertices s1)
                 (deserialize (arc_vertices arc) (array_bytes (vdata_store_bytes P) (vertices s1))
                    (sizeof P * nvertices s1)),
            edgedata :=
               array_of_bytes (edata_store_of_bytes Q) (sizeof_store Q) (nedges s1)
                 (deserialize (arc_edgedata arc) (array_bytes (edata_store_bytes Q) (edgedata s1))
                    (sizeof Q * nedges s1))\<rparr>)"

text \<open>
  A 64-bit payload, and a store of two vertices (payloads 9 and 10, both at version 5
  with both flags set) joined by one edge (payload 11, version 6).
\<close>

definition u64 :: "64 word pod" where
  "u64 = \<lparr>sizeof = 8, to_bytes = word_bytes, of_bytes = bytes_word\<rparr>"

definition vfresh :: "nat \<Rightarrow> 64 word vdata_store" where
  "vfresh i = \<lparr>vdata_store.data = 0, modified = False, snapshot_made = False, version = 0\<rparr>"

definition efresh :: "nat \<Rightarrow> 64 word edata_store" where
  "efresh i = \<lparr>edata_store.data = 0, modified = False, snapshot_made = False, version = 0\<rparr>"

definition saved_store :: "(64 word, 64 word) graph_local_store" where
  "saved_store =
     \<lparr>vertices = [\<lparr>vdata_store.data = 9, modified = True, snapshot_made = True, version = 5\<rparr>,
                  \<lparr>vdata_store.data = 10, modified = True, snapshot_made = True, version = 5\<rparr>],
      edgedata = [\<lparr>edata_store.data = 11, modified = True, snapshot_made = True, version = 6\<rparr>],
      vertex_store_file = [], edge_store_file = [],
      edges = [\<lparr>edge_source = 0, edge_target = 1\<rparr>],
      in_edges = [[], [0]], out_edges = [[0], []], vcolors = [0, 1],
      nvertices = 2, nedges = 1, finalized = True, changeid = 0\<rparr>"

text \<open>
  Two peers together: peer 1 is \<open>owner_fragment\<close>, every other peer id stands for
  \<open>ghost_fragment\<close>. Peer 1 holds vertex 42 with payload 10, peer 0 holds its ghost with
  payload 7.
\<close>

definition two_peers :: "procid_t \<Rightarrow> (nat, nat) distributed_graph" where
  "two_peers p = (if p = 1 then owner_fragment else ghost_fragment)"

section \<open>Messages (\<^verbatim>\<open>messages.hpp\<close>)\<close>

text \<open>
  The two example message types hold one \<^verbatim>\<open>double prio\<close>. The model leaves the
  representation of \<^verbatim>\<open>double\<close> open: the priority type is a type variable, and the
  addition and the comparison of doubles are parameters of the operators.
  \<^verbatim>\<open>sum::operator+=(const sum& other)\<close> is \<^verbatim>\<open>prio += other.prio\<close>.
  \<^verbatim>\<open>max::operator+=(const sum& other)\<close> is \<^verbatim>\<open>prio = std::max(prio, other.prio)\<close>: its
  operand is a \<^verbatim>\<open>sum\<close>, as declared, and \<^verbatim>\<open>std::max(a, b)\<close> is \<^verbatim>\<open>(a < b) ? b : a\<close>.
\<close>

datatype 'd msg_sum = Msg_sum (sum_prio: 'd)

datatype 'd msg_max = Msg_max (max_prio: 'd)

definition sum_priority :: "'d msg_sum \<Rightarrow> 'd" where
  "sum_priority m = sum_prio m"

definition max_priority :: "'d msg_max \<Rightarrow> 'd" where
  "max_priority m = max_prio m"

definition sum_plus_eq :: "('d \<Rightarrow> 'd \<Rightarrow> 'd) \<Rightarrow> 'd msg_sum \<Rightarrow> 'd msg_sum \<Rightarrow> 'd msg_sum" where
  "sum_plus_eq add m other = Msg_sum (add (sum_prio m) (sum_prio other))"

definition std_max :: "('d \<Rightarrow> 'd \<Rightarrow> bool) \<Rightarrow> 'd \<Rightarrow> 'd \<Rightarrow> 'd" where
  "std_max lt a b = (if lt a b then b else a)"

definition max_plus_eq :: "('d \<Rightarrow> 'd \<Rightarrow> bool) \<Rightarrow> 'd msg_max \<Rightarrow> 'd msg_sum \<Rightarrow> 'd msg_max" where
  "max_plus_eq lt m other = Msg_max (std_max lt (max_prio m) (sum_prio other))"

section \<open>Properties of the local store\<close>

lemma store_sized_create_store:
  "store_sized (create_store nv ne vf ef vmem emem s)"
  by (auto simp: store_sized_def create_store_def allocate_graph_data_def resize_def)

lemma store_sized_add_edge:
  "store_sized s \<Longrightarrow> add_edge e u v s = Inr s' \<Longrightarrow> store_sized s'"
  by (auto simp: store_sized_def add_edge_def split: if_splits)

text \<open>
  C8. \<^verbatim>\<open>add_edge(eid, source, target)\<close> aborts when \<open>source = target\<close>, when source or
  target is not below the number of vertices, or when the edge id is not below the number
  of edges. Every other call on a created store stores the edge at \<open>eid\<close>, appends \<open>eid\<close>
  to \<open>in_edges[target]\<close> and \<open>out_edges[source]\<close>, leaves every other entry as it was and
  sets \<open>finalized\<close> to false.
\<close>

theorem add_edge_fatal_or_records:
  assumes "store_sized s"
  shows "(if source = target \<or> nvertices s \<le> unat source \<or> nvertices s \<le> unat target
             \<or> nedges s \<le> unat eid
          then add_edge eid source target s = Inl AssertionFailure
          else (\<exists>s'. add_edge eid source target s = Inr s'
                 \<and> edges s' ! unat eid = \<lparr>edge_source = source, edge_target = target\<rparr>
                 \<and> (\<forall>i. i \<noteq> unat eid \<longrightarrow> edges s' ! i = edges s ! i)
                 \<and> in_edges s' ! unat target = in_edges s ! unat target @ [eid]
                 \<and> (\<forall>i. i \<noteq> unat target \<longrightarrow> in_edges s' ! i = in_edges s ! i)
                 \<and> out_edges s' ! unat source = out_edges s ! unat source @ [eid]
                 \<and> (\<forall>i. i \<noteq> unat source \<longrightarrow> out_edges s' ! i = out_edges s ! i)
                 \<and> finalized s' = False
                 \<and> nvertices s' = nvertices s \<and> nedges s' = nedges s
                 \<and> vertices s' = vertices s \<and> edgedata s' = edgedata s
                 \<and> vcolors s' = vcolors s))"
  using assms by (auto simp: add_edge_def store_sized_def)

theorem add_edge_fatal_or_records_witness:
  "store_sized (store_of 2 1)
   \<and> (\<exists>s'. add_edge 0 0 1 (store_of 2 1) = Inr s'
        \<and> edges s' ! 0 = \<lparr>edge_source = 0, edge_target = 1\<rparr>
        \<and> in_edges s' ! 1 = [0] \<and> out_edges s' ! 0 = [0] \<and> finalized s' = False)"
proof -
  have sized: "store_sized (store_of 2 1)"
    by (simp add: store_of_def store_sized_create_store)
  have "nvertices (store_of 2 1) = 2" "nedges (store_of 2 1) = 1"
       "in_edges (store_of 2 1) ! 1 = []" "out_edges (store_of 2 1) ! 0 = []"
    by (simp_all add: store_of_def create_store_def allocate_graph_data_def new_store_def
        resize_def numeral_2_eq_2)
  with sized add_edge_fatal_or_records [of "store_of 2 1" 0 1 0]
  show ?thesis by auto
qed

section \<open>Properties of the scheduler\<close>

lemma take_other_in_queue:
  "j \<noteq> cpuid \<Longrightarrow>
   in_queues (take_from_in_queue cpuid (take_from_master cpuid s)) ! j = in_queues s ! j"
  by (auto simp: take_from_in_queue_def take_from_master_def split: list.splits)

lemma take_messages:
  "messages (take_from_in_queue cpuid (take_from_master cpuid s)) = messages s"
  by (auto simp: take_from_in_queue_def take_from_master_def split: list.splits)

lemma take_lengths:
  "length (out_queues (take_from_in_queue cpuid (take_from_master cpuid s))) = length (out_queues s)"
  "length (in_queues (take_from_in_queue cpuid (take_from_master cpuid s))) = length (in_queues s)"
  by (auto simp: take_from_in_queue_def take_from_master_def split: list.splits)

lemma take_reachable:
  "cpuid < length (out_queues s) \<Longrightarrow> cpuid < length (in_queues s) \<Longrightarrow>
   set (reachable_entries cpuid (take_from_in_queue cpuid (take_from_master cpuid s)))
     = set (reachable_entries cpuid s)"
  by (auto simp: reachable_entries_def take_from_in_queue_def take_from_master_def
      split: list.splits)

text \<open>
  C10. \<^verbatim>\<open>get_next(cpuid)\<close> looks at the master queue, \<^verbatim>\<open>out_queues[cpuid]\<close> and
  \<^verbatim>\<open>in_queues[cpuid]\<close> only: when every id in these three has no pending message (in
  particular when all three are empty), the call returns \<open>EMPTY\<close>, whatever the in-queues
  of the other workers hold, and it leaves those in-queues and the pending messages as
  they are.
\<close>

theorem get_next_empty_despite_other_in_queues:
  "cpuid < length (out_queues s) \<Longrightarrow> cpuid < length (in_queues s) \<Longrightarrow>
   \<forall>v \<in> set (reachable_entries cpuid s). messages s v = None \<Longrightarrow>
   \<exists>rv s'. get_next cpuid ret_vid ret_msg s = Inr (EMPTY, rv, ret_msg, s')
      \<and> messages s' = messages s
      \<and> length (in_queues s') = length (in_queues s)
      \<and> (\<forall>j. j \<noteq> cpuid \<longrightarrow> in_queues s' ! j = in_queues s ! j)"
proof (induction cpuid ret_vid ret_msg s rule: get_next.induct)
  case (1 cpuid ret_vid ret_msg s)
  define s2 where "s2 = take_from_in_queue cpuid (take_from_master cpuid s)"
  have l2: "cpuid < length (out_queues s2)" "cpuid < length (in_queues s2)"
    using 1(2,3) by (simp_all add: s2_def take_lengths)
  have m2: "messages s2 = messages s" by (simp add: s2_def take_messages)
  have r2: "set (reachable_entries cpuid s2) = set (reachable_entries cpuid s)"
    using 1(2,3) by (simp add: s2_def take_reachable)
  have o2: "\<forall>j. j \<noteq> cpuid \<longrightarrow> in_queues s2 ! j = in_queues s ! j"
    by (simp add: s2_def take_other_in_queue)
  have n2: "length (in_queues s2) = length (in_queues s)"
    by (simp add: s2_def take_lengths)
  show ?case
  proof (cases "out_queues s2 ! cpuid")
    case Nil
    then show ?thesis using 1(2,3) o2 n2
      by (subst get_next.simps) (simp add: s2_def[symmetric] m2)
  next
    case (Cons vid queue)
    define s3 where "s3 = s2\<lparr>out_queues := (out_queues s2)[cpuid := queue],
                             messages := (messages s2)(vid := None)\<rparr>"
    have "vid \<in> set (reachable_entries cpuid s2)"
      using Cons by (simp add: reachable_entries_def)
    then have none: "messages s vid = None" using r2 1(4) by auto
    have m3: "messages s3 = messages s" using none m2 by (auto simp: s3_def)
    have "set (reachable_entries cpuid s3) \<subseteq> set (reachable_entries cpuid s2)"
      using Cons l2 by (auto simp: s3_def reachable_entries_def)
    then have stale: "\<forall>v \<in> set (reachable_entries cpuid s3). messages s3 v = None"
      using r2 1(4) m3 by auto
    have l3: "cpuid < length (out_queues s3)" "cpuid < length (in_queues s3)"
      using l2 by (simp_all add: s3_def)
    have IH: "\<exists>rv s'. get_next cpuid vid ret_msg s3 = Inr (EMPTY, rv, ret_msg, s')
      \<and> messages s' = messages s3
      \<and> length (in_queues s') = length (in_queues s3)
      \<and> (\<forall>j. j \<noteq> cpuid \<longrightarrow> in_queues s' ! j = in_queues s3 ! j)"
      using 1(1)[OF _ s2_def Cons _ _ s3_def _ l3 stale] 1(2,3) none m2
      by (simp add: test_and_get_def)
    have step: "get_next cpuid ret_vid ret_msg s = get_next cpuid vid ret_msg s3"
      using 1(2,3) Cons none m2
      by (subst get_next.simps) (simp add: s2_def[symmetric] s3_def test_and_get_def)
    have "in_queues s3 = in_queues s2" by (simp add: s3_def)
    with IH step m3 o2 n2 show ?thesis
      by auto
  qed
qed

theorem get_next_empty_despite_other_in_queues_witness:
  "list_all (\<lambda>v. messages two_workers v = None) (reachable_entries 0 two_workers)
   \<and> reachable_entries 0 two_workers = [3, 4, 5]
   \<and> in_queues two_workers ! 1 = [7] \<and> messages two_workers 7 = Some ()
   \<and> (\<exists>rv s'. get_next 0 0 () two_workers = Inr (EMPTY, rv, (), s') \<and> in_queues s' ! 1 = [7])"
proof -
  have a: "0 < length (out_queues two_workers)" "0 < length (in_queues two_workers)"
    by (simp_all add: two_workers_def)
  have r: "reachable_entries 0 two_workers = [3, 4, 5]"
    by (simp add: two_workers_def reachable_entries_def)
  have b: "\<forall>v \<in> set (reachable_entries 0 two_workers). messages two_workers v = None"
    unfolding r by (simp add: two_workers_def)
  have c: "in_queues two_workers ! 1 = [7]" "messages two_workers 7 = Some ()"
    by (simp_all add: two_workers_def)
  from get_next_empty_despite_other_in_queues [OF a b, of 0 "()"] b c r
  show ?thesis by (auto simp: list_all_iff)
qed

section \<open>Searching and colouring at concrete stores\<close>

lemma linear_search_found:
  "linear_search s vec source target = Inr (True, e) \<Longrightarrow>
   e \<in> set vec \<and> unat e < nedges s
   \<and> edges s ! unat e = \<lparr>edge_source = source, edge_target = target\<rparr>"
  by (induction vec) (auto split: if_splits)

lemma linear_search_not_found:
  "linear_search s vec source target = Inr (False, e) \<Longrightarrow>
   e = - 1 \<and> (\<forall>a \<in> set vec. edges s ! unat a \<noteq> \<lparr>edge_source = source, edge_target = target\<rparr>)"
  by (induction vec) (auto split: if_splits)

lemma linear_search_returns:
  "\<forall>a \<in> set vec. unat a < nedges s \<Longrightarrow> nedges s \<le> length (edges s) \<Longrightarrow>
   \<exists>res. linear_search s vec source target = Inr res"
  by (induction vec) auto

text \<open>
  C5. Four vertices and the edges \<open>3\<rightarrow>1\<close>, \<open>3\<rightarrow>2\<close>, \<open>1\<rightarrow>0\<close>, \<open>2\<rightarrow>0\<close> (ids 0 to 3). There is
  no edge \<open>3\<rightarrow>0\<close>. Before \<^verbatim>\<open>finalize\<close> the linear search of \<^verbatim>\<open>find(3, 0)\<close> returns
  \<open>(false, -1)\<close>. After \<^verbatim>\<open>finalize\<close> both adjacency vectors have two entries, the binary
  search runs on \<open>out_edges[3]\<close>, its first probe is \<open>mid = 0\<close> with \<open>(3, 0) < (3, 1)\<close>, and
  \<^verbatim>\<open>assert(mid > 0)\<close> fails: the call aborts instead of returning \<open>(false, -1)\<close>. The
  edges that exist are found.
\<close>

theorem find_missing_edge_aborts_when_finalized:
  "(case add_edges [(0, 3, 1), (1, 3, 2), (2, 1, 0), (3, 2, 0)] (store_of 4 4) of
      Inl err \<Rightarrow> Inl err
    | Inr s \<Rightarrow> ls_find 3 0 s) = Inr (False, - 1)
   \<and> (case add_edges [(0, 3, 1), (1, 3, 2), (2, 1, 0), (3, 2, 0)] (store_of 4 4) of
      Inl err \<Rightarrow> Inl err
    | Inr s \<Rightarrow> (case finalize s of Inl err \<Rightarrow> Inl err | Inr s' \<Rightarrow> ls_find 3 0 s'))
     = Inl AssertionFailure
   \<and> (case add_edges [(0, 3, 1), (1, 3, 2), (2, 1, 0), (3, 2, 0)] (store_of 4 4) of
      Inl err \<Rightarrow> Inl err
    | Inr s \<Rightarrow> (case finalize s of Inl err \<Rightarrow> Inl err | Inr s' \<Rightarrow> ls_find 3 2 s'))
     = Inr (True, 1)"
  by code_simp

text \<open>
  C6. Three vertices and the edges \<open>1\<rightarrow>0\<close> and \<open>2\<rightarrow>1\<close>. \<^verbatim>\<open>compute_coloring\<close> orders the
  vertices 2, 0, 1, looks at the colours of in-neighbours only, and returns 2 colours
  with the colouring \<open>[1, 1, 0]\<close>: vertex 0 is coloured against the still uncoloured
  vertex 1, and vertex 1 is then coloured against vertex 2 alone. The edge \<open>1\<rightarrow>0\<close> joins
  two vertices of colour 1, and \<^verbatim>\<open>valid_coloring\<close> returns false.
\<close>

theorem compute_coloring_invalid_on_path:
  "(case add_edges [(0, 1, 0), (1, 2, 1)] (store_of 3 2) of
      Inl err \<Rightarrow> Inl err
    | Inr s \<Rightarrow>
       (case compute_coloring s of
          Inl err \<Rightarrow> Inl err
        | Inr (ncolors, s') \<Rightarrow>
           (case valid_coloring s' of
              Inl err \<Rightarrow> Inl err
            | Inr valid \<Rightarrow> Inr (map snd (permutation s), ncolors, vcolors s', valid))))
   = Inr ([2, 0, 1], 2, [1, 1, 0], False)"
  by code_simp

section \<open>Properties of the synchronization primitives\<close>

lemmas record_access_defs =
  and_then_def vertex_record_def edge_record_def ls_vertex_data_def vertex_version_def
  assign_vertex_data_def set_vertex_version_def ls_edge_data_def edge_version_def
  assign_edge_data_def set_edge_version_def

lemma ucast_stored_version:
  "(ucast (ucast (ucast (v :: 62 word) :: 64 word) :: 62 word) :: 64 word) = ucast v"
  by (simp add: word_unat_eq_iff unsigned_ucast_eq unsigned_take_bit_eq take_bit_nat_eq_self
      unsigned_less [where 'a = nat] order_less_trans [OF unsigned_less])

lemma vertex_version_rule:
  fixes g :: "('v, 'e) distributed_graph" and gv :: "64 word"
  assumes "global2localvid g vid = Some lv"
    and "vertex_version lv (localstore g) = Inr ov"
    and "ls_vertex_data lv (localstore g) = Inr od"
  shows "(gv < ov \<longrightarrow> get_vertex_if_version_less_than vid gv vs g = Inr (Some (od, ov), g))
          \<and> (ov < gv \<and> vs = None \<longrightarrow> get_vertex_if_version_less_than vid gv vs g = Inl AssertionFailure)
          \<and> (ov < gv \<longrightarrow> (\<forall>d x. vs = Some (d, x) \<longrightarrow>
                (\<exists>g'. get_vertex_if_version_less_than vid gv vs g = Inr (None, g')
                   \<and> ls_vertex_data lv (localstore g') = Inr d
                   \<and> vertex_version lv (localstore g') = Inr (ucast (ucast gv :: 62 word))
                   \<and> (\<forall>v :: 62 word. gv = ucast v \<longrightarrow> vertex_version lv (localstore g') = Inr gv))))
          \<and> (ov = gv \<longrightarrow> get_vertex_if_version_less_than vid gv vs g = Inr (None, g))"
  using assms ucast_stored_version
  by (auto simp: get_vertex_if_version_less_than_def index_or_insert_def record_access_defs
      split: if_splits)

lemma edge_version_rule:
  fixes g :: "('v, 'e) distributed_graph" and gv :: "64 word"
  assumes "global2localeid g eid = Some le"
    and "edge_version le (localstore g) = Inr eov"
    and "ls_edge_data le (localstore g) = Inr eod"
  shows "(gv < eov \<longrightarrow> get_edge_if_version_less_than eid gv es g = Inr (Some (eod, eov), g))
          \<and> (eov < gv \<and> es = None \<longrightarrow> get_edge_if_version_less_than eid gv es g = Inl AssertionFailure)
          \<and> (eov < gv \<longrightarrow> (\<forall>d x. es = Some (d, x) \<longrightarrow>
                (\<exists>g'. get_edge_if_version_less_than eid gv es g = Inr (None, g')
                   \<and> ls_edge_data le (localstore g') = Inr d
                   \<and> edge_version le (localstore g') = Inr (ucast (ucast gv :: 62 word))
                   \<and> (\<forall>v :: 62 word. gv = ucast v \<longrightarrow> edge_version le (localstore g') = Inr gv))))
          \<and> (eov = gv \<longrightarrow> get_edge_if_version_less_than eid gv es g = Inr (None, g))"
  using assms ucast_stored_version
  by (auto simp: get_edge_if_version_less_than_def index_or_insert_def record_access_defs
      split: if_splits)

lemma edge_version_rule2:
  fixes g :: "('v, 'e) distributed_graph" and gv :: "64 word"
  assumes "global2localvid g source = Some lsrc"
    and "global2localvid g target = Some ltgt"
    and "ls_find lsrc ltgt (localstore g) = Inr (True, le2)"
    and "edge_version le2 (localstore g) = Inr eov2"
    and "ls_edge_data le2 (localstore g) = Inr eod2"
  shows "(gv < eov2 \<longrightarrow> get_edge_if_version_less_than2 source target gv es2 g = Inr (Some (eod2, eov2), g))
          \<and> (eov2 < gv \<and> es2 = None \<longrightarrow> get_edge_if_version_less_than2 source target gv es2 g = Inl AssertionFailure)
          \<and> (eov2 < gv \<longrightarrow> (\<forall>d x. es2 = Some (d, x) \<longrightarrow>
                (\<exists>g'. get_edge_if_version_less_than2 source target gv es2 g = Inr (None, g')
                   \<and> ls_edge_data le2 (localstore g') = Inr d
                   \<and> edge_version le2 (localstore g') = Inr (ucast (ucast gv :: 62 word))
                   \<and> (\<forall>v :: 62 word. gv = ucast v \<longrightarrow> edge_version le2 (localstore g') = Inr gv))))
          \<and> (eov2 = gv \<longrightarrow> get_edge_if_version_less_than2 source target gv es2 g = Inr (None, g))"
  using assms ucast_stored_version
  by (auto simp: get_edge_if_version_less_than2_def index_or_insert_def record_access_defs
      split: if_splits)

text \<open>
  The versions that the senders pass (\<^verbatim>\<open>synchronize_vertex\<close>, \<^verbatim>\<open>synchronize_edge\<close> and the
  batch forms read them with \<^verbatim>\<open>vertex_version\<close> and \<^verbatim>\<open>edge_version\<close>) come from a 62-bit
  field.
\<close>

lemma read_versions_are_62_bit:
  "vertex_version lv s = Inr x \<Longrightarrow> \<exists>v :: 62 word. x = ucast v"
  "edge_version le s = Inr y \<Longrightarrow> \<exists>v :: 62 word. y = ucast v"
  by (auto simp: record_access_defs split: if_splits)

text \<open>
  C1. On the owner, with the vertex in the owner's store at version \<open>ov\<close> with data
  \<open>od\<close>: if \<open>ov\<close> is above the ghost's version, \<^verbatim>\<open>get_vertex_if_version_less_than\<close>
  returns \<open>has_data\<close> with the owner's \<open>(od, ov)\<close> and changes nothing; if it is below, the
  call requires the ghost's payload (the assertion fails without it), takes the ghost's
  payload, stores the ghost's version and returns no data; if the two are equal it
  returns no data and changes nothing. What is stored is the low 62 bits of the ghost's
  version, which is the ghost's version itself whenever that was read from a version
  field (\<open>gv = ucast v\<close>), as it is in every call the senders make. The same holds for
  \<^verbatim>\<open>get_edge_if_version_less_than\<close> on an edge id and for
  \<^verbatim>\<open>get_edge_if_version_less_than2\<close> on a \<open>(source, target)\<close> pair. Each primitive is stated
  under its own conditions only.
\<close>

theorem version_gated_reconciliation:
  fixes g :: "('v, 'e) distributed_graph" and gv :: "64 word"
  shows "(global2localvid g vid = Some lv
          \<and> vertex_version lv (localstore g) = Inr ov
          \<and> ls_vertex_data lv (localstore g) = Inr od \<longrightarrow>
            (gv < ov \<longrightarrow> get_vertex_if_version_less_than vid gv vs g = Inr (Some (od, ov), g))
          \<and> (ov < gv \<and> vs = None \<longrightarrow> get_vertex_if_version_less_than vid gv vs g = Inl AssertionFailure)
          \<and> (ov < gv \<longrightarrow> (\<forall>d x. vs = Some (d, x) \<longrightarrow>
                (\<exists>g'. get_vertex_if_version_less_than vid gv vs g = Inr (None, g')
                   \<and> ls_vertex_data lv (localstore g') = Inr d
                   \<and> vertex_version lv (localstore g') = Inr (ucast (ucast gv :: 62 word))
                   \<and> (\<forall>v :: 62 word. gv = ucast v \<longrightarrow> vertex_version lv (localstore g') = Inr gv))))
          \<and> (ov = gv \<longrightarrow> get_vertex_if_version_less_than vid gv vs g = Inr (None, g)))
    \<and> (global2localeid g eid = Some le
          \<and> edge_version le (localstore g) = Inr eov
          \<and> ls_edge_data le (localstore g) = Inr eod \<longrightarrow>
            (gv < eov \<longrightarrow> get_edge_if_version_less_than eid gv es g = Inr (Some (eod, eov), g))
          \<and> (eov < gv \<and> es = None \<longrightarrow> get_edge_if_version_less_than eid gv es g = Inl AssertionFailure)
          \<and> (eov < gv \<longrightarrow> (\<forall>d x. es = Some (d, x) \<longrightarrow>
                (\<exists>g'. get_edge_if_version_less_than eid gv es g = Inr (None, g')
                   \<and> ls_edge_data le (localstore g') = Inr d
                   \<and> edge_version le (localstore g') = Inr (ucast (ucast gv :: 62 word))
                   \<and> (\<forall>v :: 62 word. gv = ucast v \<longrightarrow> edge_version le (localstore g') = Inr gv))))
          \<and> (eov = gv \<longrightarrow> get_edge_if_version_less_than eid gv es g = Inr (None, g)))
    \<and> (global2localvid g source = Some lsrc
          \<and> global2localvid g target = Some ltgt
          \<and> ls_find lsrc ltgt (localstore g) = Inr (True, le2)
          \<and> edge_version le2 (localstore g) = Inr eov2
          \<and> ls_edge_data le2 (localstore g) = Inr eod2 \<longrightarrow>
            (gv < eov2 \<longrightarrow> get_edge_if_version_less_than2 source target gv es2 g = Inr (Some (eod2, eov2), g))
          \<and> (eov2 < gv \<and> es2 = None \<longrightarrow> get_edge_if_version_less_than2 source target gv es2 g = Inl AssertionFailure)
          \<and> (eov2 < gv \<longrightarrow> (\<forall>d x. es2 = Some (d, x) \<longrightarrow>
                (\<exists>g'. get_edge_if_version_less_than2 source target gv es2 g = Inr (None, g')
                   \<and> ls_edge_data le2 (localstore g') = Inr d
                   \<and> edge_version le2 (localstore g') = Inr (ucast (ucast gv :: 62 word))
                   \<and> (\<forall>v :: 62 word. gv = ucast v \<longrightarrow> edge_version le2 (localstore g') = Inr gv))))
          \<and> (eov2 = gv \<longrightarrow> get_edge_if_version_less_than2 source target gv es2 g = Inr (None, g)))"
  by (intro conjI;
      (rule impI, elim conjE,
        (rule vertex_version_rule edge_version_rule edge_version_rule2; assumption)))

lemma owner_fragment_facts:
  "global2localvid owner_fragment 42 = Some 0"
  "global2localvid owner_fragment 43 = Some 1"
  "global2localeid owner_fragment 7 = Some 0"
  "vertex_version 0 (localstore owner_fragment) = Inr 5"
  "ls_vertex_data 0 (localstore owner_fragment) = Inr 10"
  "edge_version 0 (localstore owner_fragment) = Inr 5"
  "ls_edge_data 0 (localstore owner_fragment) = Inr 20"
  "ls_find 0 1 (localstore owner_fragment) = Inr (True, 0)"
  by code_simp+

theorem version_gated_reconciliation_witness:
  "global2localvid owner_fragment 42 = Some 0
   \<and> vertex_version 0 (localstore owner_fragment) = Inr 5
   \<and> ls_vertex_data 0 (localstore owner_fragment) = Inr 10
   \<and> global2localeid owner_fragment 7 = Some 0
   \<and> edge_version 0 (localstore owner_fragment) = Inr 5
   \<and> ls_edge_data 0 (localstore owner_fragment) = Inr 20
   \<and> global2localvid owner_fragment 43 = Some 1
   \<and> ls_find 0 1 (localstore owner_fragment) = Inr (True, 0)
   \<and> get_vertex_if_version_less_than 42 4 None owner_fragment = Inr (Some (10, 5), owner_fragment)
   \<and> get_vertex_if_version_less_than 42 6 None owner_fragment = Inl AssertionFailure
   \<and> (\<exists>g'. get_vertex_if_version_less_than 42 6 (Some (99, 0)) owner_fragment = Inr (None, g')
         \<and> ls_vertex_data 0 (localstore g') = Inr 99 \<and> vertex_version 0 (localstore g') = Inr 6)
   \<and> get_vertex_if_version_less_than 42 5 (Some (99, 0)) owner_fragment = Inr (None, owner_fragment)
   \<and> get_edge_if_version_less_than 7 4 None owner_fragment = Inr (Some (20, 5), owner_fragment)
   \<and> (\<exists>g'. get_edge_if_version_less_than 7 6 (Some (77, 0)) owner_fragment = Inr (None, g')
         \<and> ls_edge_data 0 (localstore g') = Inr 77 \<and> edge_version 0 (localstore g') = Inr 6)
   \<and> get_edge_if_version_less_than2 42 43 4 None owner_fragment = Inr (Some (20, 5), owner_fragment)
   \<and> (\<exists>g'. get_edge_if_version_less_than2 42 43 6 (Some (77, 0)) owner_fragment = Inr (None, g')
         \<and> ls_edge_data 0 (localstore g') = Inr 77 \<and> edge_version 0 (localstore g') = Inr 6)
   \<and> get_edge_if_version_less_than2 42 43 5 None owner_fragment = Inr (None, owner_fragment)"
proof -
  note f = owner_fragment_facts
  note vh = conjI [OF f(1) conjI [OF f(4) f(5)]]
  note eh = conjI [OF f(3) conjI [OF f(6) f(7)]]
  note ph = conjI [OF f(1) conjI [OF f(2) conjI [OF f(8) conjI [OF f(6) f(7)]]]]
  note v4 = version_gated_reconciliation
    [where g = owner_fragment and vid = 42 and lv = 0 and ov = 5 and od = 10 and gv = 4
      and vs = None, THEN conjunct1, THEN mp, OF vh]
  note v5 = version_gated_reconciliation
    [where g = owner_fragment and vid = 42 and lv = 0 and ov = 5 and od = 10 and gv = 5
      and vs = "Some (99, 0)", THEN conjunct1, THEN mp, OF vh]
  note v6 = version_gated_reconciliation
    [where g = owner_fragment and vid = 42 and lv = 0 and ov = 5 and od = 10 and gv = 6
      and vs = None, THEN conjunct1, THEN mp, OF vh]
  note v6' = version_gated_reconciliation
    [where g = owner_fragment and vid = 42 and lv = 0 and ov = 5 and od = 10 and gv = 6
      and vs = "Some (99, 0)", THEN conjunct1, THEN mp, OF vh]
  note e4 = version_gated_reconciliation
    [where g = owner_fragment and eid = 7 and le = 0 and eov = 5 and eod = 20 and gv = 4
      and es = None, THEN conjunct2, THEN conjunct1, THEN mp, OF eh]
  note e6 = version_gated_reconciliation
    [where g = owner_fragment and eid = 7 and le = 0 and eov = 5 and eod = 20 and gv = 6
      and es = "Some (77, 0)", THEN conjunct2, THEN conjunct1, THEN mp, OF eh]
  note p4 = version_gated_reconciliation
    [where g = owner_fragment and source = 42 and target = 43 and lsrc = 0 and ltgt = 1
      and ?le2.0 = 0 and ?eov2.0 = 5 and ?eod2.0 = 20 and gv = 4 and ?es2.0 = None,
      THEN conjunct2, THEN conjunct2, THEN mp, OF ph]
  note p5 = version_gated_reconciliation
    [where g = owner_fragment and source = 42 and target = 43 and lsrc = 0 and ltgt = 1
      and ?le2.0 = 0 and ?eov2.0 = 5 and ?eod2.0 = 20 and gv = 5 and ?es2.0 = None,
      THEN conjunct2, THEN conjunct2, THEN mp, OF ph]
  note p6 = version_gated_reconciliation
    [where g = owner_fragment and source = 42 and target = 43 and lsrc = 0 and ltgt = 1
      and ?le2.0 = 0 and ?eov2.0 = 5 and ?eod2.0 = 20 and gv = 6 and ?es2.0 = "Some (77, 0)",
      THEN conjunct2, THEN conjunct2, THEN mp, OF ph]
  have v1: "get_vertex_if_version_less_than 42 4 None owner_fragment
            = Inr (Some (10, 5), owner_fragment)"
    using v4 [THEN conjunct1] by simp
  have v2: "get_vertex_if_version_less_than 42 6 None owner_fragment = Inl AssertionFailure"
    using v6 [THEN conjunct2, THEN conjunct1] by simp
  have v3: "\<exists>g'. get_vertex_if_version_less_than 42 6 (Some (99, 0)) owner_fragment = Inr (None, g')
         \<and> ls_vertex_data 0 (localstore g') = Inr 99 \<and> vertex_version 0 (localstore g') = Inr 6"
    using v6' [THEN conjunct2, THEN conjunct2, THEN conjunct1] by auto
  have v4': "get_vertex_if_version_less_than 42 5 (Some (99, 0)) owner_fragment
            = Inr (None, owner_fragment)"
    using v5 [THEN conjunct2, THEN conjunct2, THEN conjunct2] by simp
  have e1: "get_edge_if_version_less_than 7 4 None owner_fragment
            = Inr (Some (20, 5), owner_fragment)"
    using e4 [THEN conjunct1] by simp
  have e3: "\<exists>g'. get_edge_if_version_less_than 7 6 (Some (77, 0)) owner_fragment = Inr (None, g')
         \<and> ls_edge_data 0 (localstore g') = Inr 77 \<and> edge_version 0 (localstore g') = Inr 6"
    using e6 [THEN conjunct2, THEN conjunct2, THEN conjunct1] by auto
  have p1: "get_edge_if_version_less_than2 42 43 4 None owner_fragment
            = Inr (Some (20, 5), owner_fragment)"
    using p4 [THEN conjunct1] by simp
  have p3: "\<exists>g'. get_edge_if_version_less_than2 42 43 6 (Some (77, 0)) owner_fragment = Inr (None, g')
         \<and> ls_edge_data 0 (localstore g') = Inr 77 \<and> edge_version 0 (localstore g') = Inr 6"
    using p6 [THEN conjunct2, THEN conjunct2, THEN conjunct1] by auto
  have p4': "get_edge_if_version_less_than2 42 43 5 None owner_fragment = Inr (None, owner_fragment)"
    using p5 [THEN conjunct2, THEN conjunct2, THEN conjunct2] by simp
  show ?thesis
    by (intro conjI) (rule f v1 v2 v3 v4' e1 e3 p1 p3 p4')+
qed

section \<open>Properties of the routing\<close>

lemma get_vertex_data_local:
  "global2localvid g vid = Some lv \<Longrightarrow> ls_vertex_data lv (localstore g) = Inr d \<Longrightarrow>
   get_vertex_data g vid = Inr (Served d)"
  by (simp add: get_vertex_data_def global_vid_in_local_fragment_def dg_vertex_data_def
      and_then_def)

lemma get_vertex_data_absent:
  "global2localvid g vid = None \<Longrightarrow> globalvid2owner g vid = Some owner \<Longrightarrow>
   get_vertex_data g vid = Inr (Remote_request owner (Get_vertex_data vid))"
  by (simp add: get_vertex_data_def global_vid_in_local_fragment_def ask_vertex_owner_def)

lemma num_in_neighbors_served_only_by_owner:
  "dg_num_in_neighbors g vid = Inr (Served n) \<Longrightarrow>
   \<exists>lv. global2localvid g vid = Some lv \<and> at_index (localvid2owner g) lv = Inr (procid g)"
  by (auto simp: dg_num_in_neighbors_def ask_vertex_owner_def and_then_def
      split: option.splits sum.splits if_splits)

text \<open>
  C3, as amended. \<^verbatim>\<open>get_vertex_data(v)\<close> returns the payload of the local replica, with
  no RPC, whenever \<open>v\<close> is in the local fragment, whether this peer owns it or holds it
  only as a ghost. When \<open>v\<close> is not in the fragment it asks the directory and sends one
  blocking \<^verbatim>\<open>get_vertex_data\<close> request to the owner (it aborts when the directory does
  not know \<open>v\<close>); the owner, holding \<open>v\<close> in its fragment, answers with its own payload,
  which is the result, and no other peer is asked. \<^verbatim>\<open>num_in_neighbors(v)\<close> is served from
  the local store when this peer owns \<open>v\<close> and only then; for a ghost and for a vertex
  outside the fragment it is requested from the owner.
\<close>

theorem get_vertex_data_routing:
  fixes g :: "('v, 'e) distributed_graph"
  shows "(global2localvid g vid = Some lv \<and> ls_vertex_data lv (localstore g) = Inr d
            \<longrightarrow> get_vertex_data g vid = Inr (Served d))
    \<and> (global2localvid g vid = None \<and> globalvid2owner g vid = Some owner
            \<longrightarrow> get_vertex_data g vid = Inr (Remote_request owner (Get_vertex_data vid)))
    \<and> (global2localvid g vid = None \<and> globalvid2owner g vid = None
            \<longrightarrow> get_vertex_data g vid = Inl AssertionFailure)
    \<and> (global2localvid (peers p) vid = Some lv \<and> ls_vertex_data lv (localstore (peers p)) = Inr d
            \<longrightarrow> get_vertex_data_over (Suc hops) peers p vid = Some (Inr (d, [])))
    \<and> (global2localvid (peers p) vid = None \<and> globalvid2owner (peers p) vid = Some owner
          \<and> global2localvid (peers owner) vid = Some lo
          \<and> ls_vertex_data lo (localstore (peers owner)) = Inr od
            \<longrightarrow> get_vertex_data_over (Suc (Suc hops)) peers p vid = Some (Inr (od, [owner])))
    \<and> (global2localvid g vid = Some lv \<and> at_index (localvid2owner g) lv = Inr (procid g)
          \<and> ls_num_in_neighbors lv (localstore g) = Inr n
            \<longrightarrow> dg_num_in_neighbors g vid = Inr (Served n))
    \<and> (global2localvid g vid = Some lv \<and> at_index (localvid2owner g) lv = Inr q
          \<and> q \<noteq> procid g \<and> globalvid2owner g vid = Some owner
            \<longrightarrow> dg_num_in_neighbors g vid = Inr (Remote_request owner (Num_in_neighbors vid)))
    \<and> (global2localvid g vid = None \<and> globalvid2owner g vid = Some owner
            \<longrightarrow> dg_num_in_neighbors g vid = Inr (Remote_request owner (Num_in_neighbors vid)))
    \<and> (dg_num_in_neighbors g vid = Inr (Served n)
            \<longrightarrow> (\<exists>l. global2localvid g vid = Some l
                    \<and> at_index (localvid2owner g) l = Inr (procid g)))"
proof (intro conjI impI; (elim conjE)?)
  show "get_vertex_data g vid = Inr (Served d)"
    if "global2localvid g vid = Some lv" "ls_vertex_data lv (localstore g) = Inr d"
    using that by (rule get_vertex_data_local)
  show "get_vertex_data g vid = Inr (Remote_request owner (Get_vertex_data vid))"
    if "global2localvid g vid = None" "globalvid2owner g vid = Some owner"
    using that by (rule get_vertex_data_absent)
  show "get_vertex_data g vid = Inl AssertionFailure"
    if "global2localvid g vid = None" "globalvid2owner g vid = None"
    using that
    by (simp add: get_vertex_data_def global_vid_in_local_fragment_def ask_vertex_owner_def)
  show "get_vertex_data_over (Suc hops) peers p vid = Some (Inr (d, []))"
    if "global2localvid (peers p) vid = Some lv" "ls_vertex_data lv (localstore (peers p)) = Inr d"
    using get_vertex_data_local [OF that] by simp
  show "get_vertex_data_over (Suc (Suc hops)) peers p vid = Some (Inr (od, [owner]))"
    if "global2localvid (peers p) vid = None" "globalvid2owner (peers p) vid = Some owner"
      "global2localvid (peers owner) vid = Some lo"
      "ls_vertex_data lo (localstore (peers owner)) = Inr od"
    using get_vertex_data_absent [OF that(1,2)] get_vertex_data_local [OF that(3,4)] by simp
  show "dg_num_in_neighbors g vid = Inr (Served n)"
    if "global2localvid g vid = Some lv" "at_index (localvid2owner g) lv = Inr (procid g)"
      "ls_num_in_neighbors lv (localstore g) = Inr n"
    using that by (simp add: dg_num_in_neighbors_def and_then_def)
  show "dg_num_in_neighbors g vid = Inr (Remote_request owner (Num_in_neighbors vid))"
    if "global2localvid g vid = Some lv" "at_index (localvid2owner g) lv = Inr q"
      "q \<noteq> procid g" "globalvid2owner g vid = Some owner"
    using that by (simp add: dg_num_in_neighbors_def and_then_def ask_vertex_owner_def)
  show "dg_num_in_neighbors g vid = Inr (Remote_request owner (Num_in_neighbors vid))"
    if "global2localvid g vid = None" "globalvid2owner g vid = Some owner"
    using that by (simp add: dg_num_in_neighbors_def ask_vertex_owner_def)
  show "\<exists>l. global2localvid g vid = Some l \<and> at_index (localvid2owner g) l = Inr (procid g)"
    if "dg_num_in_neighbors g vid = Inr (Served n)"
    using that by (rule num_in_neighbors_served_only_by_owner)
qed

lemma ghost_fragment_facts:
  "global2localvid ghost_fragment 42 = Some 1"
  "ls_vertex_data 1 (localstore ghost_fragment) = Inr 7"
  "global2localvid ghost_fragment 99 = None"
  "globalvid2owner ghost_fragment 99 = Some 2"
  "global2localvid ghost_fragment 40 = Some 0"
  "at_index (localvid2owner ghost_fragment) 0 = Inr (procid ghost_fragment)"
  "ls_num_in_neighbors 0 (localstore ghost_fragment) = Inr 0"
  "at_index (localvid2owner ghost_fragment) 1 = Inr 1"
  "procid ghost_fragment = 0"
  "globalvid2owner ghost_fragment 42 = Some 1"
  "global2localvid (two_peers 0) 42 = Some 1"
  "ls_vertex_data 1 (localstore (two_peers 0)) = Inr 7"
  "global2localvid (two_peers 0) 43 = None"
  "globalvid2owner (two_peers 0) 43 = Some 1"
  "global2localvid (two_peers 1) 43 = Some 1"
  "ls_vertex_data 1 (localstore (two_peers 1)) = Inr 11"
  by code_simp+

theorem get_vertex_data_routing_witness:
  "global2localvid ghost_fragment 42 = Some 1
   \<and> ls_vertex_data 1 (localstore ghost_fragment) = Inr 7
   \<and> get_vertex_data ghost_fragment 42 = Inr (Served 7)
   \<and> global2localvid ghost_fragment 99 = None \<and> globalvid2owner ghost_fragment 99 = Some 2
   \<and> get_vertex_data ghost_fragment 99 = Inr (Remote_request 2 (Get_vertex_data 99))
   \<and> global2localvid (two_peers 0) 42 = Some 1
   \<and> ls_vertex_data 1 (localstore (two_peers 0)) = Inr 7
   \<and> get_vertex_data_over 1 two_peers 0 42 = Some (Inr (7, []))
   \<and> global2localvid (two_peers 0) 43 = None \<and> globalvid2owner (two_peers 0) 43 = Some 1
   \<and> global2localvid (two_peers 1) 43 = Some 1
   \<and> ls_vertex_data 1 (localstore (two_peers 1)) = Inr 11
   \<and> get_vertex_data_over 2 two_peers 0 43 = Some (Inr (11, [1]))
   \<and> global2localvid ghost_fragment 40 = Some 0
   \<and> at_index (localvid2owner ghost_fragment) 0 = Inr (procid ghost_fragment)
   \<and> dg_num_in_neighbors ghost_fragment 40 = Inr (Served 0)
   \<and> at_index (localvid2owner ghost_fragment) 1 = Inr 1 \<and> procid ghost_fragment = 0
   \<and> globalvid2owner ghost_fragment 42 = Some 1
   \<and> dg_num_in_neighbors ghost_fragment 42 = Inr (Remote_request 1 (Num_in_neighbors 42))
   \<and> dg_num_in_neighbors ghost_fragment 99 = Inr (Remote_request 2 (Num_in_neighbors 99))"
proof -
  note f = ghost_fragment_facts
  have a: "get_vertex_data ghost_fragment 42 = Inr (Served 7)"
    using get_vertex_data_routing [where g = ghost_fragment and vid = 42 and lv = 1 and d = 7,
        THEN conjunct1] f by simp
  have b: "get_vertex_data ghost_fragment 99 = Inr (Remote_request 2 (Get_vertex_data 99))"
    using get_vertex_data_routing [where g = ghost_fragment and vid = 99 and owner = 2,
        THEN conjunct2, THEN conjunct1] f by simp
  have c: "get_vertex_data_over 1 two_peers 0 42 = Some (Inr (7, []))"
    using get_vertex_data_routing
      [where peers = two_peers and p = 0 and vid = 42 and lv = 1 and d = 7 and hops = 0,
        THEN conjunct2, THEN conjunct2, THEN conjunct2, THEN conjunct1] f by simp
  have d: "get_vertex_data_over 2 two_peers 0 43 = Some (Inr (11, [1]))"
    using get_vertex_data_routing
      [where peers = two_peers and p = 0 and vid = 43 and owner = 1 and lo = 1 and od = 11
        and hops = 0,
        THEN conjunct2, THEN conjunct2, THEN conjunct2, THEN conjunct2, THEN conjunct1] f
    by (simp add: numeral_2_eq_2)
  have e: "dg_num_in_neighbors ghost_fragment 40 = Inr (Served 0)"
    using get_vertex_data_routing
      [where g = ghost_fragment and vid = 40 and lv = 0 and n = 0,
        THEN conjunct2, THEN conjunct2, THEN conjunct2, THEN conjunct2, THEN conjunct2,
        THEN conjunct1] f by simp
  have h: "dg_num_in_neighbors ghost_fragment 42 = Inr (Remote_request 1 (Num_in_neighbors 42))"
    using get_vertex_data_routing
      [where g = ghost_fragment and vid = 42 and lv = 1 and q = 1 and owner = 1,
        THEN conjunct2, THEN conjunct2, THEN conjunct2, THEN conjunct2, THEN conjunct2,
        THEN conjunct2, THEN conjunct1] f by simp
  have i: "dg_num_in_neighbors ghost_fragment 99 = Inr (Remote_request 2 (Num_in_neighbors 99))"
    using get_vertex_data_routing
      [where g = ghost_fragment and vid = 99 and owner = 2,
        THEN conjunct2, THEN conjunct2, THEN conjunct2, THEN conjunct2, THEN conjunct2,
        THEN conjunct2, THEN conjunct2, THEN conjunct1] f by simp
  show ?thesis
    by (intro conjI) (rule f a b c d e h i)+
qed

text \<open>
  C3 as stated fails: peer 0 holds vertex 42 as a ghost of peer 1, and
  \<^verbatim>\<open>get_vertex_data(42)\<close> on peer 0 returns the local payload 7 and asks no one, while
  the owner's payload is 10; \<^verbatim>\<open>num_in_neighbors(42)\<close> on the same peer does go to the
  owner.
\<close>

theorem ghost_read_served_locally_counterexample:
  "(case is_ghost 42 ghost_fragment of Inl err \<Rightarrow> Inl err | Inr (ghost, g') \<Rightarrow> Inr ghost) = Inr True
   \<and> globalvid2owner ghost_fragment 42 = Some 1
   \<and> get_vertex_data ghost_fragment 42 = Inr (Served 7)
   \<and> get_vertex_data ghost_fragment 42 \<noteq> Inr (Remote_request 1 (Get_vertex_data 42))
   \<and> get_vertex_data_over 2 two_peers 0 42 = Some (Inr (7, []))
   \<and> get_vertex_data_over 2 two_peers 1 42 = Some (Inr (10, []))
   \<and> dg_num_in_neighbors ghost_fragment 42 = Inr (Remote_request 1 (Num_in_neighbors 42))"
  by code_simp

text \<open>
  C7, as amended. In canonical edge numbering mode, \<^verbatim>\<open>source\<close>, \<^verbatim>\<open>target\<close>,
  \<^verbatim>\<open>rev_edge_id\<close>, \<^verbatim>\<open>get_edge_data_from_eid\<close> and \<^verbatim>\<open>set_edge_data_from_eid\<close> on an edge id
  that is not in the local fragment fail with the assertion and send nothing. On an edge
  of the local fragment, \<^verbatim>\<open>source\<close>, \<^verbatim>\<open>target\<close> and \<^verbatim>\<open>get_edge_data_from_eid\<close> are served
  locally; \<^verbatim>\<open>set_edge_data_from_eid\<close> writes locally when this peer owns the edge's
  target and fails with the same assertion when the target is a ghost; \<^verbatim>\<open>rev_edge_id\<close>
  is served locally when the local store finds the reverse edge and fails as the local
  lookup fails otherwise.
\<close>

theorem canonical_numbering_edge_operations:
  fixes g :: "('v, 'e) distributed_graph"
  assumes "edge_canonical_numbering g"
  shows "(global2localeid g eid = None \<longrightarrow>
            dg_source g eid = Inl AssertionFailure \<and> dg_target g eid = Inl AssertionFailure
          \<and> dg_rev_edge_id g eid = Inl AssertionFailure
          \<and> get_edge_data_from_eid g eid = Inl AssertionFailure
          \<and> set_edge_data_from_eid g eid edata async = Inl AssertionFailure)
    \<and> (global2localeid g eid = Some le \<and> ls_source le (localstore g) = Inr u
          \<and> at_index (local2globalvid g) u = Inr gu
            \<longrightarrow> dg_source g eid = Inr (Served gu))
    \<and> (global2localeid g eid = Some le \<and> ls_target le (localstore g) = Inr t
          \<and> at_index (local2globalvid g) t = Inr gt
            \<longrightarrow> dg_target g eid = Inr (Served gt))
    \<and> (global2localeid g eid = Some le \<and> ls_edge_data le (localstore g) = Inr d
            \<longrightarrow> get_edge_data_from_eid g eid = Inr (Served d))
    \<and> (global2localeid g eid = Some le \<and> ls_target le (localstore g) = Inr t
          \<and> at_index (localvid2owner g) t = Inr (procid g)
          \<and> assign_edge_data le edata (localstore g) = Inr ls'
            \<longrightarrow> set_edge_data_from_eid g eid edata async = Inr (Served (), g\<lparr>localstore := ls'\<rparr>))
    \<and> (global2localeid g eid = Some le \<and> ls_target le (localstore g) = Inr t
          \<and> at_index (localvid2owner g) t = Inr p \<and> p \<noteq> procid g
            \<longrightarrow> set_edge_data_from_eid g eid edata async = Inl AssertionFailure)
    \<and> (global2localeid g eid = Some le \<and> ls_rev_edge_id le (localstore g) = Inr r
          \<and> at_index (local2globaleid g) r = Inr gr
            \<longrightarrow> dg_rev_edge_id g eid = Inr (Served gr))
    \<and> (global2localeid g eid = Some le \<and> ls_rev_edge_id le (localstore g) = Inl err
            \<longrightarrow> dg_rev_edge_id g eid = Inl err)"
  using assms
  by (simp add: dg_source_def dg_target_def dg_rev_edge_id_def get_edge_data_from_eid_def
      set_edge_data_from_eid_def set_edge_data_remote_def ask_edge_owner_def dg_edge_data_def
      global_eid_in_local_fragment_def and_then_def)

lemma ghost_fragment_edge_facts:
  "edge_canonical_numbering ghost_fragment"
  "global2localeid ghost_fragment 5 = None"
  "global2localeid ghost_fragment 0 = Some 0"
  "ls_source 0 (localstore ghost_fragment) = Inr 0"
  "at_index (local2globalvid ghost_fragment) 0 = Inr 40"
  "ls_target 0 (localstore ghost_fragment) = Inr 1"
  "at_index (local2globalvid ghost_fragment) 1 = Inr 42"
  "ls_edge_data 0 (localstore ghost_fragment) = Inr 30"
  "at_index (localvid2owner ghost_fragment) 1 = Inr 1"
  "ls_rev_edge_id 0 (localstore ghost_fragment) = Inl AssertionFailure"
  by code_simp+

theorem canonical_numbering_edge_operations_witness:
  "edge_canonical_numbering ghost_fragment
   \<and> global2localeid ghost_fragment 5 = None
   \<and> dg_source ghost_fragment 5 = Inl AssertionFailure
   \<and> set_edge_data_from_eid ghost_fragment 5 31 True = Inl AssertionFailure
   \<and> global2localeid ghost_fragment 0 = Some 0
   \<and> dg_source ghost_fragment 0 = Inr (Served 40)
   \<and> dg_target ghost_fragment 0 = Inr (Served 42)
   \<and> get_edge_data_from_eid ghost_fragment 0 = Inr (Served 30)
   \<and> set_edge_data_from_eid ghost_fragment 0 31 False = Inl AssertionFailure
   \<and> dg_rev_edge_id ghost_fragment 0 = Inl AssertionFailure"
proof -
  note f = ghost_fragment_edge_facts
  note absent = canonical_numbering_edge_operations
    [where g = ghost_fragment and eid = 5 and edata = 31 and async = True, OF f(1),
      THEN conjunct1, THEN mp, OF f(2)]
  note t = canonical_numbering_edge_operations
    [where g = ghost_fragment and eid = 0 and le = 0 and u = 0 and gu = 40 and t = 1
      and gt = 42 and d = 30 and p = 1 and edata = 31 and async = False
      and err = AssertionFailure, OF f(1), THEN conjunct2]
  have a: "dg_source ghost_fragment 5 = Inl AssertionFailure"
    using absent by simp
  have b: "set_edge_data_from_eid ghost_fragment 5 31 True = Inl AssertionFailure"
    using absent by simp
  have c: "dg_source ghost_fragment 0 = Inr (Served 40)"
    using t [THEN conjunct1] f by simp
  have d: "dg_target ghost_fragment 0 = Inr (Served 42)"
    using t [THEN conjunct2, THEN conjunct1] f by simp
  have e: "get_edge_data_from_eid ghost_fragment 0 = Inr (Served 30)"
    using t [THEN conjunct2, THEN conjunct2, THEN conjunct1] f by simp
  have h: "set_edge_data_from_eid ghost_fragment 0 31 False = Inl AssertionFailure"
    using t [THEN conjunct2, THEN conjunct2, THEN conjunct2, THEN conjunct2, THEN conjunct1] f
    by (simp add: ghost_fragment_def)
  have i: "dg_rev_edge_id ghost_fragment 0 = Inl AssertionFailure"
    using t [THEN conjunct2, THEN conjunct2, THEN conjunct2, THEN conjunct2, THEN conjunct2,
        THEN conjunct2] f
    by simp
  show ?thesis
    by (intro conjI) (rule f a b c d e h i)+
qed

text \<open>
  C7 as stated fails in its last part: edge 0 is in the local fragment, but its target
  is a ghost and it has no reverse edge, so in canonical mode both
  \<^verbatim>\<open>set_edge_data_from_eid\<close> and \<^verbatim>\<open>rev_edge_id\<close> on it abort.
\<close>

theorem local_edge_operation_fails_counterexample:
  "edge_canonical_numbering ghost_fragment
   \<and> global_eid_in_local_fragment ghost_fragment 0
   \<and> (case set_edge_data_from_eid ghost_fragment 0 31 False of
        Inl err \<Rightarrow> Inl err | Inr (r, g') \<Rightarrow> Inr r) = Inl AssertionFailure
   \<and> dg_rev_edge_id ghost_fragment 0 = Inl AssertionFailure
   \<and> dg_source ghost_fragment 0 = Inr (Served 40)
   \<and> get_edge_data_from_eid ghost_fragment 0 = Inr (Served 30)"
  by code_simp

section \<open>Properties of the asynchronous synchronization\<close>

lemma synchronize_vertex_keeps_counter:
  "synchronize_vertex vid async reply g = Inr (sent, g') \<Longrightarrow>
   pending_async_updates g' = pending_async_updates g"
  by (auto simp: synchronize_vertex_def is_ghost_def index_or_insert_def and_then_def
      Let_def split: option.splits sum.splits if_splits prod.splits)

lemma reply_decrements_counter:
  "reply_vertex_data_and_version vid vstore g = Inr g' \<Longrightarrow>
   pending_async_updates g' = pending_async_updates g - 1"
  by (auto simp: reply_vertex_data_and_version_def update_vertex_data_and_version_def
      index_or_insert_def and_then_def Let_def split: option.splits sum.splits prod.splits)

lemma wait_returns_at_zero:
  "pending_async_updates g = 0 \<Longrightarrow> wait_for_all_async_syncs g = Some g"
  by (subst wait_for_all_async_syncs.simps) simp

lemma wait_returns_only_at_zero:
  "wait_for_all_async_syncs g = Some g' \<Longrightarrow> pending_async_updates g = 0"
  by (rule wait_for_all_async_syncs.raw_induct [where P = "\<lambda>g y. pending_async_updates g = 0"])
    (auto split: if_splits)

lemma wait_never_returns:
  "pending_async_updates g \<noteq> 0 \<Longrightarrow> wait_for_all_async_syncs g = None"
  using wait_returns_only_at_zero [of g] by (cases "wait_for_all_async_syncs g") auto

text \<open>
  C4. Peer 0 holds vertex 42 as a ghost of peer 1 and its counter is 0. The asynchronous
  \<^verbatim>\<open>synchronize_vertex(42, true)\<close> fires the one-way call to peer 1 and leaves the
  counter at 0: nothing increments it. \<^verbatim>\<open>wait_for_all_async_syncs\<close> therefore returns
  at once, with the reply still outstanding and the replica still at version 3. When the
  reply (payload 50, version 9) arrives later, the handler merges it and decrements the
  counter from 0 to \<open>2 ^ 64 - 1\<close>, and from then on \<^verbatim>\<open>wait_for_all_async_syncs\<close> does
  not return.
\<close>

theorem async_sync_does_not_count:
  "synchronize_vertex 42 True None ghost_fragment
     = Inr ([Remote_call 1 (Async_get_vertex_if_version_less_than 0 42 3 None)], ghost_fragment)
   \<and> pending_async_updates ghost_fragment = 0
   \<and> wait_for_all_async_syncs ghost_fragment = Some ghost_fragment
   \<and> vertex_version 1 (localstore ghost_fragment) = Inr 3
   \<and> (\<exists>g'. reply_vertex_data_and_version 42 (Some (50, 9)) ghost_fragment = Inr g'
         \<and> vertex_version 1 (localstore g') = Inr 9
         \<and> pending_async_updates g' = - 1
         \<and> wait_for_all_async_syncs g' = None)"
proof (intro conjI)
  show "synchronize_vertex 42 True None ghost_fragment
     = Inr ([Remote_call 1 (Async_get_vertex_if_version_less_than 0 42 3 None)], ghost_fragment)"
    by (simp add: synchronize_vertex_def is_ghost_def index_or_insert_def and_then_def
        at_index_def vertex_modified_def ls_vertex_data_def vertex_version_def
        vertex_record_def ghost_fragment_def ghost_store_def)
  show zero: "pending_async_updates ghost_fragment = 0"
    by (simp add: ghost_fragment_def)
  show "wait_for_all_async_syncs ghost_fragment = Some ghost_fragment"
    using zero by (rule wait_returns_at_zero)
  show "vertex_version 1 (localstore ghost_fragment) = Inr 3"
    by code_simp
  have "(case reply_vertex_data_and_version 42 (Some (50, 9)) ghost_fragment of
        Inl err \<Rightarrow> Inl err
      | Inr g' \<Rightarrow> Inr (vertex_version 1 (localstore g'), pending_async_updates g'))
     = Inr (Inr 9, - 1)"
    by (simp add: reply_vertex_data_and_version_def update_vertex_data_and_version_def
        index_or_insert_def and_then_def overwrite_vertex_def vertex_version_def
        vertex_record_def ghost_fragment_def ghost_store_def)
  then obtain g' where g':
    "reply_vertex_data_and_version 42 (Some (50, 9)) ghost_fragment = Inr g'"
    "vertex_version 1 (localstore g') = Inr 9" "pending_async_updates g' = - 1"
    by (auto split: sum.splits)
  from g'(3) have "wait_for_all_async_syncs g' = None"
    by (intro wait_never_returns) simp
  with g' show "\<exists>g'. reply_vertex_data_and_version 42 (Some (50, 9)) ghost_fragment = Inr g'
         \<and> vertex_version 1 (localstore g') = Inr 9
         \<and> pending_async_updates g' = - 1
         \<and> wait_for_all_async_syncs g' = None"
    by blast
qed

section \<open>Saving and loading at a concrete store\<close>

text \<open>
  C2. The two vertex records of the example occupy 32 bytes, from which all of them can
  be read back; \<^verbatim>\<open>save\<close> writes \<^verbatim>\<open>sizeof(VertexData) * nvertices\<close>, that is 16 of them,
  and 8 of the 16 bytes of the edge record. After \<^verbatim>\<open>load\<close> into fresh zeroed memory the
  structure is as saved and vertex 0 is intact, but vertex 1 holds the fresh memory
  (payload, flags and version are lost) and the edge has its payload but neither its
  flags nor its version.
\<close>

theorem save_load_loses_records:
  "array_of_bytes (vdata_store_of_bytes u64) (sizeof_store u64) 2
      (array_bytes (vdata_store_bytes u64) (vertices saved_store)) = vertices saved_store
   \<and> length (array_bytes (vdata_store_bytes u64) (vertices saved_store)) = 32
   \<and> length (arc_vertices (save u64 u64 saved_store)) = 16
   \<and> length (arc_edgedata (save u64 u64 saved_store)) = 8
   \<and> edges (load u64 u64 vfresh efresh (save u64 u64 saved_store) new_store) = edges saved_store
   \<and> in_edges (load u64 u64 vfresh efresh (save u64 u64 saved_store) new_store)
       = in_edges saved_store
   \<and> vertices saved_store
       = [\<lparr>vdata_store.data = 9, modified = True, snapshot_made = True, version = 5\<rparr>,
          \<lparr>vdata_store.data = 10, modified = True, snapshot_made = True, version = 5\<rparr>]
   \<and> vertices (load u64 u64 vfresh efresh (save u64 u64 saved_store) new_store)
       = [\<lparr>vdata_store.data = 9, modified = True, snapshot_made = True, version = 5\<rparr>,
          \<lparr>vdata_store.data = 0, modified = False, snapshot_made = False, version = 0\<rparr>]
   \<and> edgedata saved_store
       = [\<lparr>edata_store.data = 11, modified = True, snapshot_made = True, version = 6\<rparr>]
   \<and> edgedata (load u64 u64 vfresh efresh (save u64 u64 saved_store) new_store)
       = [\<lparr>edata_store.data = 11, modified = False, snapshot_made = False, version = 0\<rparr>]"
  by code_simp

section \<open>Properties of the message combiners\<close>

lemma sum_plus_eq_assoc:
  "(\<And>a b c. add (add a b) c = add a (add b c)) \<Longrightarrow>
   sum_plus_eq add (sum_plus_eq add m1 m2) m3 = sum_plus_eq add m1 (sum_plus_eq add m2 m3)"
  by (simp add: sum_plus_eq_def)

text \<open>
  C9. For \<^verbatim>\<open>messages::sum\<close>, \<^verbatim>\<open>m1 += m2\<close> makes the priority of \<open>m1\<close> the sum of the two
  priorities. For \<^verbatim>\<open>messages::max\<close> the operator that exists takes a \<^verbatim>\<open>sum\<close> as its
  right operand and makes the priority the maximum of the two; it is not an operator on
  two \<^verbatim>\<open>max\<close> values. With integer priorities 1 and 2: the sum is 3, and the \<^verbatim>\<open>max\<close>
  message of priority 1 combined with the \<^verbatim>\<open>sum\<close> message of priority 2 has priority 2.
\<close>

theorem max_combiner_takes_sum:
  "sum_priority (sum_plus_eq add m1 m2) = add (sum_priority m1) (sum_priority m2)
   \<and> max_priority (max_plus_eq lt m (Msg_sum p)) = std_max lt (max_priority m) p
   \<and> std_max lt a b = (if lt a b then b else a)
   \<and> sum_plus_eq (+) (Msg_sum (1 :: int)) (Msg_sum 2) = Msg_sum 3
   \<and> max_plus_eq (<) (Msg_max (1 :: int)) (Msg_sum 2) = Msg_max 2
   \<and> max_plus_eq (<) (Msg_max (2 :: int)) (Msg_sum 1) = Msg_max 2"
  by (simp add: sum_priority_def max_priority_def sum_plus_eq_def max_plus_eq_def std_max_def)

end
